theory Spec2Isabelle
  imports Complex_Main
begin

section \<open>Strings\<close>

text \<open>
  A JavaScript string is modelled as a \<^typ>\<open>string\<close>, one \<^typ>\<open>char\<close> per code unit.
  Isabelle's characters are 8 bits wide, so the model covers text whose code units are
  below 256 (an IGC log is ASCII); \<open>length\<close> is the string's \<open>.length\<close>.
\<close>

definition newline :: char where
  "newline = CHR 0x0A"

definition startsWith :: "string \<Rightarrow> string \<Rightarrow> bool" where
  \<comment> \<open>\<open>s.startsWith(p)\<close>\<close>
  "startsWith s p = (take (length p) s = p)"

definition isDigit :: "char \<Rightarrow> bool" where
  \<comment> \<open>the regular expression class \<open>\d\<close>\<close>
  "isDigit c = (c \<in> set ''0123456789'')"

definition isLineTerminator :: "char \<Rightarrow> bool" where
  \<comment> \<open>what \<open>.\<close> of a regular expression refuses: LF and CR (U+2028 and U+2029 are no 8-bit
     characters)\<close>
  "isLineTerminator c = (c = CHR 0x0A \<or> c = CHR 0x0D)"

definition isWhiteSpace :: "char \<Rightarrow> bool" where
  \<comment> \<open>white space and line terminators of \<open>trim\<close> and \<open>parseInt\<close>: TAB, LF, VT, FF, CR,
     space, NBSP\<close>
  "isWhiteSpace c = (c \<in> set [CHR 0x09, CHR 0x0A, CHR 0x0B, CHR 0x0C, CHR 0x0D, CHR 0x20, CHR 0xA0])"

definition trim :: "string \<Rightarrow> string" where
  \<comment> \<open>\<open>s.trim()\<close>\<close>
  "trim s = rev (dropWhile isWhiteSpace (rev (dropWhile isWhiteSpace s)))"

fun split :: "string \<Rightarrow> string list" where
  \<comment> \<open>\<open>s.split('\n')\<close>: the empty string gives one empty line\<close>
  "split [] = [[]]"
| "split (c # cs) =
     (if c = newline then [] # split cs
      else (case split cs of l # ls \<Rightarrow> (c # l) # ls | [] \<Rightarrow> [[c]]))"

fun firstMatch :: "(string \<Rightarrow> 'a option) \<Rightarrow> string \<Rightarrow> 'a option" where
  \<comment> \<open>\<open>s.match(re)\<close> for a regular expression without flags: the match at the leftmost
     start index, \<open>m\<close> being the expression anchored at the start of its argument\<close>
  "firstMatch m [] = m []"
| "firstMatch m (c # cs) = (case m (c # cs) of Some r \<Rightarrow> Some r | None \<Rightarrow> firstMatch m cs)"

definition lazyColonRest :: "string \<Rightarrow> string option" where
  \<comment> \<open>\<open>.*?:(.*)\<close> anchored: up to the first colon no line terminator may stand; the group
     is the run of characters after the colon up to the next line terminator\<close>
  "lazyColonRest r =
     (case dropWhile (\<lambda>c. c \<noteq> CHR '':'' \<and> \<not> isLineTerminator c) r of
        [] \<Rightarrow> None
      | c # cs \<Rightarrow> if c = CHR '':'' then Some (takeWhile (\<lambda>c. \<not> isLineTerminator c) cs) else None)"

definition dateAt :: "string \<Rightarrow> (string \<times> string \<times> string) option" where
  \<comment> \<open>\<open>HFDTE(\d{2})(\d{2})(\d{2})\<close> anchored: the three groups\<close>
  "dateAt s =
     (if startsWith s ''HFDTE'' \<and> 11 \<le> length s \<and> list_all isDigit (take 6 (drop 5 s))
      then Some (take 2 (drop 5 s), take 2 (drop 7 s), take 2 (drop 9 s))
      else None)"

definition tagAt :: "string \<Rightarrow> string \<Rightarrow> bool" where
  \<comment> \<open>\<open>H[FO]TAG\<close> anchored, for a three-letter tag\<close>
  "tagAt tag s = (startsWith s (''HF'' @ tag) \<or> startsWith s (''HO'' @ tag))"

definition hasTag :: "string \<Rightarrow> string \<Rightarrow> bool" where
  \<comment> \<open>\<open>line.match(/H[FO]TAG/)\<close> as a condition\<close>
  "hasTag tag line = (firstMatch (\<lambda>s. if tagAt tag s then Some () else None) line \<noteq> None)"

definition tagValue :: "string \<Rightarrow> string \<Rightarrow> string option" where
  \<comment> \<open>\<open>line.match(/H[FO]TAG.*?:(.*)/)\<close>: group 1 of the leftmost match\<close>
  "tagValue tag line = firstMatch (\<lambda>s. if tagAt tag s then lazyColonRest (drop 5 s) else None) line"

definition prefixValue :: "string \<Rightarrow> string \<Rightarrow> string option" where
  \<comment> \<open>\<open>line.match(/HFRFW.*?:(.*)/)\<close> and the like, for a five-letter prefix\<close>
  "prefixValue p line = firstMatch (\<lambda>s. if startsWith s p then lazyColonRest (drop 5 s) else None) line"

section \<open>IGCParser: the header\<close>

record header =
  date :: "string option"
  pilot :: string
  gliderType :: string
  gliderReg :: string
  gpsDatum :: string
  firmwareVersion :: "string option"
  hardwareVersion :: "string option"
  loggerType :: string
  competitionId :: "string option"

definition initialHeader :: header where
  "initialHeader = \<lparr> date = None, pilot = ''Unknown'', gliderType = ''Unknown'',
     gliderReg = ''Unknown'', gpsDatum = ''WGS84'', firmwareVersion = None,
     hardwareVersion = None, loggerType = ''Unknown'', competitionId = None \<rparr>"

definition headerLine :: "header \<Rightarrow> string \<Rightarrow> header" where
  \<comment> \<open>the body of the \<open>forEach\<close> of \<open>parseHeader\<close>: one line against the chain of prefixes\<close>
  "headerLine h line =
     (if startsWith line ''HFDTE'' then
        (case firstMatch dateAt line of
           Some (day, month, yy) \<Rightarrow> h\<lparr>date := Some (''20'' @ yy @ ''-'' @ month @ ''-'' @ day)\<rparr>
         | None \<Rightarrow> h)
      else if hasTag ''PLT'' line then
        (case tagValue ''PLT'' line of
           Some m \<Rightarrow> if trim m \<noteq> [] then h\<lparr>pilot := trim m\<rparr> else h
         | None \<Rightarrow> h)
      else if hasTag ''GTY'' line then
        (case tagValue ''GTY'' line of
           Some m \<Rightarrow> if trim m \<noteq> [] then h\<lparr>gliderType := trim m\<rparr> else h
         | None \<Rightarrow> h)
      else if hasTag ''GID'' line then
        (case tagValue ''GID'' line of
           Some m \<Rightarrow> if trim m \<noteq> [] then h\<lparr>gliderReg := trim m\<rparr> else h
         | None \<Rightarrow> h)
      else if hasTag ''CID'' line then
        (case tagValue ''CID'' line of
           Some m \<Rightarrow> if trim m \<noteq> [] then h\<lparr>competitionId := Some (trim m)\<rparr> else h
         | None \<Rightarrow> h)
      else if startsWith line ''HFRFW'' then
        (case prefixValue ''HFRFW'' line of
           Some m \<Rightarrow> if trim m \<noteq> [] then h\<lparr>firmwareVersion := Some (trim m)\<rparr> else h
         | None \<Rightarrow> h)
      else if startsWith line ''HFRHW'' then
        (case prefixValue ''HFRHW'' line of
           Some m \<Rightarrow> if trim m \<noteq> [] then h\<lparr>hardwareVersion := Some (trim m)\<rparr> else h
         | None \<Rightarrow> h)
      else h)"

definition parseHeader :: "string list \<Rightarrow> header" where
  "parseHeader lines = foldl headerLine initialHeader lines"

text \<open>The fields a header line can fill, read as optional strings.\<close>

datatype hfield = Date | Pilot | GliderType | GliderReg | CompetitionId
  | FirmwareVersion | HardwareVersion



definition nonBlank :: "hfield \<Rightarrow> string option \<Rightarrow> (hfield \<times> string) option" where
  \<comment> \<open>\<open>match && match[1].trim()\<close>: the field takes the trimmed group when that is not empty\<close>
  "nonBlank f m =
     (case m of Some x \<Rightarrow> if trim x \<noteq> [] then Some (f, trim x) else None | None \<Rightarrow> None)"

definition lineAssigns :: "string \<Rightarrow> (hfield \<times> string) option" where
  \<comment> \<open>the assignment that the chain of \<open>parseHeader\<close> makes for a line: the field of the first
     branch whose condition the line meets and the value assigned there, or none when that
     branch finds no value (or no branch takes the line)\<close>
  "lineAssigns line =
     (if startsWith line ''HFDTE'' then
        (case firstMatch dateAt line of
           Some (day, month, yy) \<Rightarrow> Some (Date, ''20'' @ yy @ ''-'' @ month @ ''-'' @ day)
         | None \<Rightarrow> None)
      else if hasTag ''PLT'' line then nonBlank Pilot (tagValue ''PLT'' line)
      else if hasTag ''GTY'' line then nonBlank GliderType (tagValue ''GTY'' line)
      else if hasTag ''GID'' line then nonBlank GliderReg (tagValue ''GID'' line)
      else if hasTag ''CID'' line then nonBlank CompetitionId (tagValue ''CID'' line)
      else if startsWith line ''HFRFW'' then nonBlank FirmwareVersion (prefixValue ''HFRFW'' line)
      else if startsWith line ''HFRHW'' then nonBlank HardwareVersion (prefixValue ''HFRHW'' line)
      else None)"


section \<open>Numbers\<close>

text \<open>
  A JavaScript number is NaN, one of the two infinities or a real. Arithmetic on the reals
  is exact: the rounding of double precision and the sign of zero are not modelled (a zero
  is the positive zero). A product overflows as a product of doubles does: when its
  magnitude reaches \<open>2^1024 - 2^970\<close>, half a unit in the last place above the largest
  double, it is the infinity of its sign. Sums, differences and quotients are exact.
\<close>

datatype jsnum = NaN | NegInfinity | Num real | Infinity

fun signOf :: "jsnum \<Rightarrow> real" where
  "signOf NegInfinity = -1"
| "signOf Infinity = 1"
| "signOf (Num a) = sgn a"
| "signOf NaN = 0"

definition ofSign :: "real \<Rightarrow> jsnum" where
  "ofSign s = (if s = 0 then NaN else if 0 < s then Infinity else NegInfinity)"

fun js_neg :: "jsnum \<Rightarrow> jsnum" where
  "js_neg NaN = NaN"
| "js_neg NegInfinity = Infinity"
| "js_neg (Num a) = Num (- a)"
| "js_neg Infinity = NegInfinity"

fun js_add :: "jsnum \<Rightarrow> jsnum \<Rightarrow> jsnum" where
  "js_add NaN b = NaN"
| "js_add a NaN = NaN"
| "js_add (Num a) (Num b) = Num (a + b)"
| "js_add (Num a) b = b"
| "js_add a (Num b) = a"
| "js_add a b = (if a = b then a else NaN)"

definition js_sub :: "jsnum \<Rightarrow> jsnum \<Rightarrow> jsnum" where
  "js_sub a b = js_add a (js_neg b)"

definition overflowLimit :: real where
  "overflowLimit = 2 ^ 1024 - 2 ^ 970"

fun js_mul :: "jsnum \<Rightarrow> jsnum \<Rightarrow> jsnum" where
  "js_mul NaN b = NaN"
| "js_mul a NaN = NaN"
| "js_mul (Num a) (Num b) = (if \<bar>a * b\<bar> < overflowLimit then Num (a * b) else ofSign (a * b))"
| "js_mul a b = ofSign (signOf a * signOf b)"

fun js_div :: "jsnum \<Rightarrow> jsnum \<Rightarrow> jsnum" where
  "js_div NaN b = NaN"
| "js_div a NaN = NaN"
| "js_div (Num a) (Num b) = (if b = 0 then ofSign (sgn a) else Num (a / b))"
| "js_div (Num a) b = Num 0"
| "js_div a (Num b) = ofSign (signOf a * (if b < 0 then -1 else 1))"
| "js_div a b = NaN"

fun js_lt :: "jsnum \<Rightarrow> jsnum \<Rightarrow> bool" where
  \<comment> \<open>\<open>a < b\<close>: false when an operand is NaN\<close>
  "js_lt NaN b = False"
| "js_lt a NaN = False"
| "js_lt (Num a) (Num b) = (a < b)"
| "js_lt a NegInfinity = False"
| "js_lt Infinity b = False"
| "js_lt a b = True"

definition js_gt :: "jsnum \<Rightarrow> jsnum \<Rightarrow> bool" where
  "js_gt a b = js_lt b a"

definition js_le :: "jsnum \<Rightarrow> jsnum \<Rightarrow> bool" where
  "js_le a b = (a \<noteq> NaN \<and> b \<noteq> NaN \<and> \<not> js_lt b a)"

definition Math_max :: "jsnum \<Rightarrow> jsnum \<Rightarrow> jsnum" where
  "Math_max a b = (if a = NaN \<or> b = NaN then NaN else if js_lt a b then b else a)"

definition Math_min :: "jsnum \<Rightarrow> jsnum \<Rightarrow> jsnum" where
  "Math_min a b = (if a = NaN \<or> b = NaN then NaN else if js_lt b a then b else a)"

fun Math_abs :: "jsnum \<Rightarrow> jsnum" where
  "Math_abs NaN = NaN"
| "Math_abs (Num a) = Num \<bar>a\<bar>"
| "Math_abs a = Infinity"

fun Math_ceil :: "jsnum \<Rightarrow> jsnum" where
  "Math_ceil (Num a) = Num (of_int \<lceil>a\<rceil>)"
| "Math_ceil a = a"

fun Math_sin :: "jsnum \<Rightarrow> jsnum" where
  "Math_sin (Num a) = Num (sin a)"
| "Math_sin a = NaN"

fun Math_cos :: "jsnum \<Rightarrow> jsnum" where
  "Math_cos (Num a) = Num (cos a)"
| "Math_cos a = NaN"

fun Math_sqrt :: "jsnum \<Rightarrow> jsnum" where
  "Math_sqrt (Num a) = (if a < 0 then NaN else Num (sqrt a))"
| "Math_sqrt Infinity = Infinity"
| "Math_sqrt a = NaN"

definition atan2 :: "real \<Rightarrow> real \<Rightarrow> real" where
  \<comment> \<open>the angle of the point \<open>(x, y)\<close>, in \<open>(-\<pi>, \<pi>]\<close>; 0 at the origin\<close>
  "atan2 y x =
     (if 0 < x then arctan (y / x)
      else if x < 0 then (if 0 \<le> y then arctan (y / x) + pi else arctan (y / x) - pi)
      else if 0 < y then pi / 2
      else if y < 0 then - pi / 2
      else 0)"

fun Math_atan2 :: "jsnum \<Rightarrow> jsnum \<Rightarrow> jsnum" where
  "Math_atan2 NaN x = NaN"
| "Math_atan2 y NaN = NaN"
| "Math_atan2 (Num y) (Num x) = Num (atan2 y x)"
| "Math_atan2 (Num y) Infinity = Num 0"
| "Math_atan2 (Num y) NegInfinity = Num (if 0 \<le> y then pi else - pi)"
| "Math_atan2 Infinity (Num x) = Num (pi / 2)"
| "Math_atan2 NegInfinity (Num x) = Num (- pi / 2)"
| "Math_atan2 Infinity Infinity = Num (pi / 4)"
| "Math_atan2 Infinity NegInfinity = Num (3 * pi / 4)"
| "Math_atan2 NegInfinity Infinity = Num (- pi / 4)"
| "Math_atan2 NegInfinity NegInfinity = Num (- 3 * pi / 4)"

definition truncReal :: "real \<Rightarrow> int" where
  \<comment> \<open>rounding towards zero\<close>
  "truncReal r = (if 0 \<le> r then \<lfloor>r\<rfloor> else \<lceil>r\<rceil>)"

fun js_mod :: "jsnum \<Rightarrow> jsnum \<Rightarrow> jsnum" where
  \<comment> \<open>\<open>a % b\<close>: the remainder has the sign of the dividend\<close>
  "js_mod (Num a) (Num b) = (if b = 0 then NaN else Num (a - b * of_int (truncReal (a / b))))"
| "js_mod (Num a) Infinity = Num a"
| "js_mod (Num a) NegInfinity = Num a"
| "js_mod a b = NaN"

definition Math_PI :: jsnum where
  "Math_PI = Num pi"

subsection \<open>Numbers and strings\<close>

definition digitValue :: "char \<Rightarrow> nat" where
  "digitValue c = of_char c - 48"

definition parseInt :: "string \<Rightarrow> int option" where
  \<comment> \<open>\<open>parseInt(s, 10)\<close>: white space, a sign, then the longest run of digits; \<open>None\<close> is
     NaN\<close>
  "parseInt s =
     (let t = dropWhile isWhiteSpace s;
          neg = (take 1 t = ''-'');
          u = (if take 1 t = ''-'' \<or> take 1 t = ''+'' then drop 1 t else t);
          ds = takeWhile isDigit u
      in if ds = [] then None
         else Some ((if neg then -1 else 1) * int (foldl (\<lambda>n c. 10 * n + digitValue c) 0 ds)))"

definition ofParsed :: "int option \<Rightarrow> jsnum" where
  "ofParsed p = (case p of None \<Rightarrow> NaN | Some n \<Rightarrow> Num (of_int n))"

definition digitChar :: "nat \<Rightarrow> char" where
  "digitChar d = ''0123456789'' ! d"

fun decimal :: "nat \<Rightarrow> string" where
  \<comment> \<open>the decimal digits of a natural number\<close>
  "decimal n = (if n < 10 then [digitChar n] else decimal (n div 10) @ [digitChar (n mod 10)])"

declare decimal.simps [simp del]

definition intToString :: "int option \<Rightarrow> string" where
  \<comment> \<open>\<open>n.toString()\<close> of a result of \<open>parseInt\<close>\<close>
  "intToString p =
     (case p of None \<Rightarrow> ''NaN''
      | Some n \<Rightarrow> if n < 0 then CHR ''-'' # decimal (nat (- n)) else decimal (nat n))"

definition padStart :: "nat \<Rightarrow> char \<Rightarrow> string \<Rightarrow> string" where
  \<comment> \<open>\<open>s.padStart(n, c)\<close> for a one-character filler\<close>
  "padStart n c s = replicate (n - length s) c @ s"

definition substr :: "string \<Rightarrow> nat \<Rightarrow> nat \<Rightarrow> string" where
  \<comment> \<open>\<open>s.substr(start, len)\<close> for a start index that is not negative\<close>
  "substr s start len = take len (drop start s)"

definition charAt :: "string \<Rightarrow> nat \<Rightarrow> string" where
  \<comment> \<open>\<open>s.charAt(i)\<close>: the empty string out of range\<close>
  "charAt s i = take 1 (drop i s)"

section \<open>IGCParser: fixes and statistics\<close>

record igcFix =
  time :: string
  timestamp :: jsnum
  latitude :: jsnum
  longitude :: jsnum
  validity :: bool
  pressureAltitude :: jsnum
  gnssAltitude :: jsnum

definition parseBRecord :: "string \<Rightarrow> igcFix option" where
  \<comment> \<open>\<open>None\<close> is the \<open>null\<close> of a line that is too short\<close>
  "parseBRecord line =
     (if length line < 35 then None
      else
        let time = substr line 1 6;
            hours = parseInt (substr time 0 2);
            minutes = parseInt (substr time 2 2);
            seconds = parseInt (substr time 4 2);
            latDegrees = ofParsed (parseInt (substr line 7 2));
            latMinutes = ofParsed (parseInt (substr line 9 2));
            latDecimalMinutes = js_div (ofParsed (parseInt (substr line 11 3))) (Num 1000);
            latDirection = (if charAt line 14 = ''N'' then Num 1 else Num (-1));
            latitude = js_mul latDirection
              (js_add latDegrees (js_div (js_add latMinutes latDecimalMinutes) (Num 60)));
            lonDegrees = ofParsed (parseInt (substr line 15 3));
            lonMinutes = ofParsed (parseInt (substr line 18 2));
            lonDecimalMinutes = js_div (ofParsed (parseInt (substr line 20 3))) (Num 1000);
            lonDirection = (if charAt line 23 = ''E'' then Num 1 else Num (-1));
            longitude = js_mul lonDirection
              (js_add lonDegrees (js_div (js_add lonMinutes lonDecimalMinutes) (Num 60)));
            validity = charAt line 24;
            pressureAltitude = ofParsed (parseInt (substr line 25 5));
            gnssAltitude = ofParsed (parseInt (substr line 30 5))
        in Some \<lparr>
             time = padStart 2 CHR ''0'' (intToString hours) @ '':''
               @ padStart 2 CHR ''0'' (intToString minutes) @ '':''
               @ padStart 2 CHR ''0'' (intToString seconds),
             timestamp = js_add (js_add (js_mul (ofParsed hours) (Num 3600))
               (js_mul (ofParsed minutes) (Num 60))) (ofParsed seconds),
             latitude = latitude,
             longitude = longitude,
             validity = (validity = ''A''),
             pressureAltitude = pressureAltitude,
             gnssAltitude = gnssAltitude \<rparr>)"

definition toRadians :: "jsnum \<Rightarrow> jsnum" where
  "toRadians degrees = js_div (js_mul degrees Math_PI) (Num 180)"

definition calculateDistance :: "jsnum \<Rightarrow> jsnum \<Rightarrow> jsnum \<Rightarrow> jsnum \<Rightarrow> jsnum" where
  \<comment> \<open>\<open>IGCParser.calculateDistance\<close>: the haversine formula, in kilometres\<close>
  "calculateDistance lat1 lon1 lat2 lon2 =
     (let R = Num 6371;
          dLat = toRadians (js_sub lat2 lat1);
          dLon = toRadians (js_sub lon2 lon1);
          a = js_add
                (js_mul (Math_sin (js_div dLat (Num 2))) (Math_sin (js_div dLat (Num 2))))
                (js_mul (js_mul (js_mul (Math_cos (toRadians lat1)) (Math_cos (toRadians lat2)))
                   (Math_sin (js_div dLon (Num 2)))) (Math_sin (js_div dLon (Num 2))));
          c = js_mul (Num 2) (Math_atan2 (Math_sqrt a) (Math_sqrt (js_sub (Num 1) a)))
      in js_mul R c)"

definition pairs :: "'a list \<Rightarrow> ('a \<times> 'a) list" where
  \<comment> \<open>the pairs \<open>(xs[i-1], xs[i])\<close> that a loop \<open>for (i = 1; i < xs.length; i++)\<close> visits\<close>
  "pairs xs = zip xs (drop 1 xs)"

definition climbSinkStep :: "jsnum \<times> jsnum \<Rightarrow> igcFix \<times> igcFix \<Rightarrow> jsnum \<times> jsnum" where
  \<comment> \<open>one round of the climb and sink loop on \<open>(maxClimb, maxSink)\<close>\<close>
  "climbSinkStep acc pc =
     (case (acc, pc) of ((maxClimb, maxSink), (prev, cur)) \<Rightarrow>
        let timeDiff = js_sub (timestamp cur) (timestamp prev) in
        if js_gt timeDiff (Num 0) then
          let altDiff = js_sub (pressureAltitude cur) (pressureAltitude prev);
              rate = js_mul (js_div altDiff timeDiff) (Num 60)
          in (Math_max maxClimb rate, Math_min maxSink rate)
        else (maxClimb, maxSink))"

record flightStats =
  duration :: jsnum
  startTime :: "string option"
  endTime :: "string option"
  maxAltitude :: jsnum
  minAltitude :: jsnum
  takeoffAltitude :: jsnum
  landingAltitude :: jsnum
  maxClimb :: jsnum
  maxSink :: jsnum
  distance :: jsnum

definition calculateFlightStats :: "igcFix list \<Rightarrow> flightStats" where
  "calculateFlightStats fixes =
     (if fixes = [] then
        \<lparr> duration = Num 0, startTime = None, endTime = None, maxAltitude = Num 0,
          minAltitude = Num 0, takeoffAltitude = Num 0, landingAltitude = Num 0,
          maxClimb = Num 0, maxSink = Num 0, distance = Num 0 \<rparr>
      else
        let startTime = time (hd fixes);
            endTime = time (last fixes);
            startTimestamp = timestamp (hd fixes);
            endTimestamp = timestamp (last fixes);
            duration0 = js_sub endTimestamp startTimestamp;
            duration = (if js_lt duration0 (Num 0) then js_add duration0 (Num (24 * 3600))
                        else duration0);
            maxAltitude = foldl (\<lambda>m f. Math_max m (pressureAltitude f)) NegInfinity fixes;
            minAltitude = foldl (\<lambda>m f. Math_min m (pressureAltitude f)) Infinity fixes;
            takeoffAltitude = pressureAltitude (hd fixes);
            landingAltitude = pressureAltitude (last fixes);
            climbSink = foldl climbSinkStep (Num 0, Num 0) (pairs fixes);
            distance = foldl (\<lambda>d (p, c). js_add d
                (calculateDistance (latitude p) (longitude p) (latitude c) (longitude c)))
              (Num 0) (pairs fixes)
        in \<lparr> duration = duration, startTime = Some startTime, endTime = Some endTime,
             maxAltitude = maxAltitude, minAltitude = minAltitude,
             takeoffAltitude = takeoffAltitude, landingAltitude = landingAltitude,
             maxClimb = fst climbSink, maxSink = Math_abs (snd climbSink),
             distance = distance \<rparr>)"

record flightData =
  header :: header
  "fixes" :: "igcFix list"
  task :: "unit option"
  stats :: flightStats

definition fixLine :: "igcFix list \<Rightarrow> string \<Rightarrow> igcFix list" where
  \<comment> \<open>the body of the \<open>forEach\<close> of \<open>parse\<close>; a C record changes nothing\<close>
  "fixLine fs line =
     (if startsWith line ''B'' then
        (case parseBRecord line of Some f \<Rightarrow> fs @ [f] | None \<Rightarrow> fs)
      else fs)"

definition parseLines :: "string list \<Rightarrow> flightData" where
  \<comment> \<open>\<open>parse\<close> after the split into lines\<close>
  "parseLines lines =
     (let fs = foldl fixLine [] lines
      in \<lparr> header = parseHeader lines, fixes = fs, task = None,
           stats = calculateFlightStats fs \<rparr>)"

definition parse :: "string \<Rightarrow> flightData" where
  "parse igcContent = parseLines (split igcContent)"

definition joinLines :: "string list \<Rightarrow> string" where
  \<comment> \<open>the text whose lines are \<open>ls\<close>: the lines with a line feed between them\<close>
  "joinLines ls = (case ls of [] \<Rightarrow> [] | l # rest \<Rightarrow> l @ concat (map (\<lambda>x. newline # x) rest))"

section \<open>WaypointGenerator: geometry and the waypoint budget\<close>

definition calculateHaversineDistance :: "jsnum \<Rightarrow> jsnum \<Rightarrow> jsnum \<Rightarrow> jsnum \<Rightarrow> jsnum" where
  "calculateHaversineDistance lat1 lon1 lat2 lon2 =
     (let R = Num 6371;
          dLat = js_div (js_mul (js_sub lat2 lat1) Math_PI) (Num 180);
          dLon = js_div (js_mul (js_sub lon2 lon1) Math_PI) (Num 180);
          a = js_add
                (js_mul (Math_sin (js_div dLat (Num 2))) (Math_sin (js_div dLat (Num 2))))
                (js_mul (js_mul (js_mul (Math_cos (js_div (js_mul lat1 Math_PI) (Num 180)))
                     (Math_cos (js_div (js_mul lat2 Math_PI) (Num 180))))
                   (Math_sin (js_div dLon (Num 2)))) (Math_sin (js_div dLon (Num 2))));
          c = js_mul (Num 2) (Math_atan2 (Math_sqrt a) (Math_sqrt (js_sub (Num 1) a)))
      in js_mul R c)"

definition calculateTotalDistance :: "igcFix list \<Rightarrow> jsnum" where
  "calculateTotalDistance fs =
     (if length fs < 2 then Num 0
      else foldl (\<lambda>d (p, c). js_add d
             (calculateHaversineDistance (latitude p) (longitude p) (latitude c) (longitude c)))
           (Num 0) (pairs fs))"

definition calculateBearing :: "jsnum \<Rightarrow> jsnum \<Rightarrow> jsnum \<Rightarrow> jsnum \<Rightarrow> jsnum" where
  "calculateBearing lat1 lon1 lat2 lon2 =
     (let lat1Rad = js_div (js_mul lat1 Math_PI) (Num 180);
          lat2Rad = js_div (js_mul lat2 Math_PI) (Num 180);
          lonDiffRad = js_div (js_mul (js_sub lon2 lon1) Math_PI) (Num 180);
          y = js_mul (Math_sin lonDiffRad) (Math_cos lat2Rad);
          x = js_sub (js_mul (Math_cos lat1Rad) (Math_sin lat2Rad))
                (js_mul (js_mul (Math_sin lat1Rad) (Math_cos lat2Rad)) (Math_cos lonDiffRad));
          bearing0 = Math_atan2 y x;
          bearing1 = js_div (js_mul bearing0 (Num 180)) Math_PI
      in js_mod (js_add bearing1 (Num 360)) (Num 360))"

definition calculateCourseChange ::
  "jsnum \<Rightarrow> jsnum \<Rightarrow> jsnum \<Rightarrow> jsnum \<Rightarrow> jsnum \<Rightarrow> jsnum \<Rightarrow> jsnum" where
  "calculateCourseChange lat1 lon1 lat2 lon2 lat3 lon3 =
     (let bearing1 = calculateBearing lat1 lon1 lat2 lon2;
          bearing2 = calculateBearing lat2 lon2 lat3 lon3;
          diff = Math_abs (js_sub bearing1 bearing2)
      in if js_gt diff (Num 180) then js_sub (Num 360) diff else diff)"

definition baseCount :: "jsnum \<Rightarrow> string \<Rightarrow> jsnum" where
  \<comment> \<open>the \<open>switch\<close> of \<open>getTargetWaypointCount\<close>; \<open>distance'\<close> is its parameter \<open>distance\<close>\<close>
  "baseCount distance' level =
     (if level = ''low'' then Math_min (Num 12) (Math_ceil (js_div distance' (Num 15)))
      else if level = ''medium'' then Math_min (Num 8) (Math_ceil (js_div distance' (Num 25)))
      else if level = ''high'' then Math_min (Num 5) (Math_ceil (js_div distance' (Num 40)))
      else Math_min (Num 8) (Math_ceil (js_div distance' (Num 25))))"

definition getTargetWaypointCount :: "jsnum \<Rightarrow> string \<Rightarrow> jsnum" where
  "getTargetWaypointCount distance' level =
     (let MAX_WAYPOINTS = Num 15;
          base = baseCount distance' level;
          finalCount =
            (if js_le distance' (Num 20) then Math_max (Num 2) base
             else if js_le distance' (Num 100) then
               Math_max (Num 3) (Math_min (js_sub MAX_WAYPOINTS (Num 2)) (js_add base (Num 1)))
             else if js_le distance' (Num 300) then
               Math_max (Num 4) (Math_min (js_sub MAX_WAYPOINTS (Num 2)) (js_add base (Num 2)))
             else
               Math_max (Num 5) (Math_min (js_sub MAX_WAYPOINTS (Num 2)) (js_add base (Num 3))))
      in Math_min (js_sub MAX_WAYPOINTS (Num 2)) finalCount)"

definition turnThreshold :: "string \<Rightarrow> jsnum" where
  \<comment> \<open>\<open>level === 'low' ? 30 : (level === 'medium' ? 45 : 60)\<close>\<close>
  "turnThreshold level = (if level = ''low'' then Num 30 else if level = ''medium'' then Num 45 else Num 60)"

section \<open>WaypointGenerator: the selection of waypoints\<close>

text \<open>
  The objects of the array \<open>fixes\<close> (\<open>fs\<close> below) are distinct objects, as those that \<open>parse\<close> creates are.
  A reference to one of them is modelled as its index in the array: \<open>!==\<close> on two references
  compares the indices, and \<open>fixes.indexOf\<close> of a reference is the index.
\<close>

record waypoint =
  name :: string
  lat :: jsnum
  lng :: jsnum
  altitude :: jsnum
  time :: string

record candidate =
  "fix" :: nat
  importance :: jsnum
  type :: string

record generator =
  waypoints :: "waypoint list"
  flightDistance :: jsnum
  currentOptimizationLevel :: string

definition waypointOf :: "string \<Rightarrow> igcFix \<Rightarrow> waypoint" where
  \<comment> \<open>the object literal that copies a fix under a name\<close>
  "waypointOf n f = \<lparr> name = n, lat = latitude f, lng = longitude f,
     altitude = pressureAltitude f, time = igcFix.time f \<rparr>"

definition sampleFixes :: "nat \<Rightarrow> nat list" where
  \<comment> \<open>step 1 for an array of \<open>n\<close> fixes: every \<open>sampleRate\<close>-th index from 0, and the last index
     when the stride missed it\<close>
  "sampleFixes n =
     (let sampleRate = max 1 (n div 200);
          sampledFixes = filter (\<lambda>i. i mod sampleRate = 0) [0..<n]
      in if last sampledFixes \<noteq> n - 1 then sampledFixes @ [n - 1] else sampledFixes)"

definition triples :: "'a list \<Rightarrow> ('a \<times> 'a \<times> 'a) list" where
  \<comment> \<open>\<open>(xs[i-1], xs[i], xs[i+1])\<close> for \<open>i\<close> from 1 to \<open>xs.length - 2\<close>\<close>
  "triples xs = zip xs (zip (drop 1 xs) (drop 2 xs))"

definition possibleAt :: "igcFix list \<Rightarrow> jsnum \<Rightarrow> nat \<times> nat \<times> nat \<Rightarrow> candidate list" where
  \<comment> \<open>one round of the loop of step 2: the candidates that the sampled fix \<open>cur\<close> adds, \<open>threshold\<close> being \<open>turnThreshold\<close>\<close>
  "possibleAt fs threshold pcn =
     (case pcn of (prev, cur, next) \<Rightarrow>
        let prevFix = fs ! prev; currentFix = fs ! cur; nextFix = fs ! next;
            distToPrev = calculateHaversineDistance (latitude prevFix) (longitude prevFix)
              (latitude currentFix) (longitude currentFix)
        in if js_lt distToPrev (Num (1 / 10)) then []
           else
             let courseChange = calculateCourseChange (latitude prevFix) (longitude prevFix)
                   (latitude currentFix) (longitude currentFix)
                   (latitude nextFix) (longitude nextFix);
                 altChangePrev = Math_abs (js_sub (pressureAltitude currentFix) (pressureAltitude prevFix));
                 altChangeNext = Math_abs (js_sub (pressureAltitude nextFix) (pressureAltitude currentFix))
             in (if js_gt courseChange threshold
                 then [\<lparr> fix = cur, importance = js_mul courseChange (Num 2), type = ''turn'' \<rparr>]
                 else [])
                @ (if js_gt altChangePrev (Num 100) \<and> js_gt altChangeNext (Num 100)
                   then [\<lparr> fix = cur, importance = js_div (js_add altChangePrev altChangeNext) (Num 50),
                          type = ''altitude'' \<rparr>]
                   else []))"

fun insertBy :: "('a \<Rightarrow> 'a \<Rightarrow> jsnum) \<Rightarrow> 'a \<Rightarrow> 'a list \<Rightarrow> 'a list" where
  "insertBy cmp x [] = [x]"
| "insertBy cmp x (y # ys) =
     (if js_gt (cmp x y) (Num 0) then y # insertBy cmp x ys else x # y # ys)"

definition sortBy :: "('a \<Rightarrow> 'a \<Rightarrow> jsnum) \<Rightarrow> 'a list \<Rightarrow> 'a list" where
  \<comment> \<open>\<open>xs.sort(cmp)\<close>: the stable sort, as an insertion sort. For a comparator that is no
     consistent order the standard leaves the result open; the model gives this one.\<close>
  "sortBy cmp xs = foldr (insertBy cmp) xs []"

definition slice0 :: "'a list \<Rightarrow> jsnum \<Rightarrow> 'a list" where
  \<comment> \<open>\<open>xs.slice(0, e)\<close>: NaN counts as 0, a fraction is cut off, a negative end counts from
     the end of the array\<close>
  "slice0 xs e =
     (case e of
        NaN \<Rightarrow> []
      | NegInfinity \<Rightarrow> []
      | Infinity \<Rightarrow> xs
      | Num r \<Rightarrow> if truncReal r < 0 then take (nat (int (length xs) + truncReal r)) xs
                 else take (nat (truncReal r)) xs)"

definition addSelected :: "igcFix list \<Rightarrow> waypoint list \<Rightarrow> candidate \<Rightarrow> waypoint list" where
  \<comment> \<open>the body of the \<open>forEach\<close> over the selected candidates\<close>
  "addSelected fs wps c =
     (let namePrefix = (if type c = ''turn'' then ''TURN'' else ''WP'')
      in wps @ [waypointOf (namePrefix @ decimal (length wps)) (fs ! fix c)])"

definition generateWaypoints :: "generator \<Rightarrow> flightData \<Rightarrow> string \<Rightarrow> waypoint list \<times> generator" where
  \<comment> \<open>the returned array and the generator after the call\<close>
  "generateWaypoints g flightData level =
     (if fixes flightData = [] then ([], g)
      else
        let fs = fixes flightData;
            flightDist = calculateTotalDistance fs;
            g1 = g\<lparr> currentOptimizationLevel := level, flightDistance := flightDist, waypoints := [] \<rparr>;
            maxWaypoints = getTargetWaypointCount flightDist level;
            takeoff = hd fs;
            wps0 = [waypointOf ''TAKEOFF'' takeoff];
            landing = last fs
        in if js_le maxWaypoints (Num 0) then
             (let wps = wps0 @ [waypointOf ''LANDING'' landing] in (wps, g1\<lparr> waypoints := wps \<rparr>))
           else
             let sampledFixes = sampleFixes (length fs);
                 possibleWaypoints = concat (map (possibleAt fs (turnThreshold level)) (triples sampledFixes));
                 sorted1 = sortBy (\<lambda>a b. js_sub (importance b) (importance a)) possibleWaypoints;
                 selectedWaypoints = slice0 sorted1 maxWaypoints;
                 sorted2 = sortBy (\<lambda>a b. js_sub (Num (real (fix a))) (Num (real (fix b)))) selectedWaypoints;
                 wps1 = foldl (addSelected fs) wps0 sorted2;
                 wps = wps1 @ [waypointOf ''LANDING'' landing]
             in (wps, g1\<lparr> waypoints := wps \<rparr>))"

section \<open>WaypointGenerator: the export\<close>

text \<open>
  How a number prints depends on its double precision digits where it is no integer of
  magnitude up to \<open>2^53\<close>; that part of \<open>Number.prototype.toString\<close> is the parameter \<open>fmt\<close>.
  Everything else of \<open>toString\<close> and \<open>toFixed\<close> is written out.
\<close>

definition numberToString :: "(real \<Rightarrow> string) \<Rightarrow> jsnum \<Rightarrow> string" where
  "numberToString fmt x =
     (case x of
        NaN \<Rightarrow> ''NaN''
      | NegInfinity \<Rightarrow> ''-Infinity''
      | Infinity \<Rightarrow> ''Infinity''
      | Num r \<Rightarrow>
          if of_int \<lfloor>r\<rfloor> = r \<and> \<bar>r\<bar> \<le> 2 ^ 53
          then (if r < 0 then CHR ''-'' # decimal (nat \<lfloor>- r\<rfloor>) else decimal (nat \<lfloor>r\<rfloor>))
          else fmt r)"

definition toFixed :: "(real \<Rightarrow> string) \<Rightarrow> nat \<Rightarrow> jsnum \<Rightarrow> string" where
  \<comment> \<open>\<open>x.toFixed(f)\<close>: the nearest multiple of \<open>10^-f\<close>, the larger one of two\<close>
  "toFixed fmt f x =
     (case x of
        NaN \<Rightarrow> ''NaN''
      | NegInfinity \<Rightarrow> ''-Infinity''
      | Infinity \<Rightarrow> ''Infinity''
      | Num r \<Rightarrow>
          let s = (if r < 0 then ''-'' else []);
              a = \<bar>r\<bar>
          in if 10 ^ 21 \<le> a then s @ fmt a
             else
               let n = nat \<lfloor>a * 10 ^ f + 1 / 2\<rfloor>;
                   m = decimal n;
                   m' = replicate (f + 1 - length m) CHR ''0'' @ m;
                   k = length m'
               in s @ (if f = 0 then m' else take (k - f) m' @ ''.'' @ drop (k - f) m'))"

definition gpxWpt :: "(real \<Rightarrow> string) \<Rightarrow> waypoint \<Rightarrow> string" where
  \<open>gpxWpt fmt w =
     ''  <wpt lat="'' @ toFixed fmt 6 (lat w) @ ''" lon="'' @ toFixed fmt 6 (lng w) @ ''">'' @ [newline]
     @ ''    <ele>'' @ numberToString fmt (altitude w) @ ''</ele>'' @ [newline]
     @ ''    <name>'' @ name w @ ''</name>'' @ [newline]
     @ ''  </wpt>'' @ [newline]\<close>

definition gpxTrkpt :: "(real \<Rightarrow> string) \<Rightarrow> waypoint \<Rightarrow> string" where
  \<open>gpxTrkpt fmt w =
     ''      <trkpt lat="'' @ toFixed fmt 6 (lat w) @ ''" lon="'' @ toFixed fmt 6 (lng w) @ ''">'' @ [newline]
     @ ''        <ele>'' @ numberToString fmt (altitude w) @ ''</ele>'' @ [newline]
     @ ''      </trkpt>'' @ [newline]\<close>

definition generateGPX :: "(real \<Rightarrow> string) \<Rightarrow> string \<Rightarrow> generator \<Rightarrow> string option" where
  \<comment> \<open>\<open>now\<close> is \<open>new Date().toISOString()\<close>; \<open>None\<close> is \<open>null\<close>\<close>
  \<open>generateGPX fmt now g =
     (if waypoints g = [] then None
      else Some (
        ''<?xml version="1.0" encoding="UTF-8"?>'' @ [newline]
        @ ''<gpx version="1.1" creator="IGC Flight Log Viewer" xmlns="http://www.topografix.com/GPX/1/1">'' @ [newline]
        @ ''  <metadata>'' @ [newline]
        @ ''    <name>Optimized Flight Waypoints ('' @ currentOptimizationLevel g @ '')</name>'' @ [newline]
        @ ''    <time>'' @ now @ ''</time>'' @ [newline]
        @ ''  </metadata>'' @ [newline]
        @ concat (map (gpxWpt fmt) (waypoints g))
        @ ''  <trk>'' @ [newline]
        @ ''    <name>Optimized Flight Path ('' @ currentOptimizationLevel g @ '')</name>'' @ [newline]
        @ ''    <trkseg>'' @ [newline]
        @ concat (map (gpxTrkpt fmt) (waypoints g))
        @ ''    </trkseg>'' @ [newline]
        @ ''  </trk>'' @ [newline]
        @ ''</gpx>''))\<close>

definition csvRow :: "(real \<Rightarrow> string) \<Rightarrow> waypoint \<Rightarrow> string" where
  "csvRow fmt w = name w @ '','' @ toFixed fmt 6 (lat w) @ '','' @ toFixed fmt 6 (lng w) @ '',''
     @ numberToString fmt (altitude w) @ [newline]"

definition generateCSV :: "(real \<Rightarrow> string) \<Rightarrow> generator \<Rightarrow> string option" where
  "generateCSV fmt g =
     (if waypoints g = [] then None
      else Some (''name,latitude,longitude,altitude'' @ [newline] @ concat (map (csvRow fmt) (waypoints g))))"

definition compactRow :: "(real \<Rightarrow> string) \<Rightarrow> waypoint \<Rightarrow> string" where
  "compactRow fmt w = name w @ '','' @ toFixed fmt 5 (lat w) @ '','' @ toFixed fmt 5 (lng w) @ [newline]"

definition generateCompactCSV :: "(real \<Rightarrow> string) \<Rightarrow> generator \<Rightarrow> string option" where
  "generateCompactCSV fmt g =
     (if waypoints g = [] then None
      else Some (concat (map (compactRow fmt) (waypoints g))))"

text \<open>
  What a call of \<open>generateQRCode\<close> does: nothing when the page has no such element; a message
  written into the element; the data handed to the QR encoder \<open>QRCode.toCanvas\<close> (an external
  library, whose own failure is not part of the model); or the TypeError of \<open>null.length\<close>.
\<close>

datatype qrOutcome = NoElement | Message string | Encode string | TypeError

definition generateQRCode ::
  "(real \<Rightarrow> string) \<Rightarrow> string \<Rightarrow> generator \<Rightarrow> bool \<Rightarrow> string \<Rightarrow> qrOutcome" where
  \<comment> \<open>\<open>qrElement\<close> tells whether \<open>document.getElementById(elementId)\<close> found the element\<close>
  \<open>generateQRCode fmt now g qrElement format =
     (if \<not> qrElement then NoElement
      else
        case (if format = ''gpx'' then generateGPX fmt now g else generateCSV fmt g) of
          None \<Rightarrow> Message ''<p class="text-danger">No waypoint data available</p>''
        | Some data \<Rightarrow>
            if data = [] then Message ''<p class="text-danger">No waypoint data available</p>''
            else if 1500 < length data then
              (case generateCompactCSV fmt g of
                 None \<Rightarrow> TypeError
               | Some data2 \<Rightarrow>
                   if 1500 < length data2
                   then Message ''<p class="text-danger">Too many waypoints for QR code</p>''
                   else Encode data2)
            else Encode data)\<close>

section \<open>Properties of the header decoding\<close>

lemma header_parseLines: "header (parseLines ls) = parseHeader ls"
  by (simp add: parseLines_def Let_def)

lemma fixes_parseLines: "fixes (parseLines ls) = foldl fixLine [] ls"
  by (simp add: parseLines_def Let_def)

lemma stats_parseLines: "stats (parseLines ls) = calculateFlightStats (foldl fixLine [] ls)"
  by (simp add: parseLines_def Let_def)

lemmas match_defs = hasTag_def tagValue_def prefixValue_def tagAt_def startsWith_def
  lazyColonRest_def isLineTerminator_def dateAt_def isDigit_def trim_def isWhiteSpace_def







text \<open>
  The chain decides which field a line may assign: a line with the glider type prefix that
  also holds \<open>HOPLT\<close> goes to the pilot branch, finds no colon after the tag and assigns
  nothing, so the glider type of the earlier line stays.
\<close>

lemma else_if_chain_example:
  "lineAssigns ''HFGTYGLIDERTYPE:LS4'' = Some (GliderType, ''LS4'')
   \<and> lineAssigns ''HFGTYGLIDERTYPE:HOPLT 2'' = None
   \<and> gliderType (parseHeader [''HFGTYGLIDERTYPE:LS4'', ''HFGTYGLIDERTYPE:HOPLT 2'']) = ''LS4''"
  by (simp add: lineAssigns_def nonBlank_def parseHeader_def initialHeader_def headerLine_def
      match_defs)




section \<open>Properties of the statistics and of the fix decoding\<close>

text \<open>
  C4. For a fix sequence that is not empty the duration is the last timestamp minus the
  first one, plus 86400 when that difference is negative (first conjunct, in JavaScript's
  arithmetic; second conjunct, on timestamps that are numbers). A sequence with the
  timestamps 86300, 86350, 40 has the duration 140 (third conjunct).
\<close>

theorem duration_midnight_wrap:
  assumes "fs \<noteq> []"
  shows "duration (calculateFlightStats fs) =
           (if js_lt (js_sub (timestamp (last fs)) (timestamp (hd fs))) (Num 0)
            then js_add (js_sub (timestamp (last fs)) (timestamp (hd fs))) (Num 86400)
            else js_sub (timestamp (last fs)) (timestamp (hd fs)))
         \<and> (\<forall>a b. timestamp (hd fs) = Num a \<and> timestamp (last fs) = Num b \<longrightarrow>
               duration (calculateFlightStats fs) = Num (if b - a < 0 then b - a + 86400 else b - a))
         \<and> (map timestamp fs = [Num 86300, Num 86350, Num 40] \<longrightarrow>
               duration (calculateFlightStats fs) = Num 140)"
proof -
  have d: "duration (calculateFlightStats fs) =
           (if js_lt (js_sub (timestamp (last fs)) (timestamp (hd fs))) (Num 0)
            then js_add (js_sub (timestamp (last fs)) (timestamp (hd fs))) (Num 86400)
            else js_sub (timestamp (last fs)) (timestamp (hd fs)))"
    using assms by (simp add: calculateFlightStats_def Let_def)
  have r: "duration (calculateFlightStats fs) = Num (if b - a < 0 then b - a + 86400 else b - a)"
    if "timestamp (hd fs) = Num a" "timestamp (last fs) = Num b" for a b
    using that by (simp add: d js_sub_def)
  have e: "duration (calculateFlightStats fs) = Num 140"
    if m: "map timestamp fs = [Num 86300, Num 86350, Num 40]"
  proof -
    from m obtain f1 f2 f3 where fs: "fs = [f1, f2, f3]"
      by (auto simp: map_eq_Cons_conv)
    with m have "timestamp (hd fs) = Num 86300" "timestamp (last fs) = Num 40"
      by simp_all
    from r [OF this] show ?thesis by simp
  qed
  from d r e show ?thesis by blast
qed

theorem duration_midnight_wrap_witness:
  "duration (calculateFlightStats
     [\<lparr> igcFix.time = ''23:58:20'', timestamp = Num 86300, latitude = Num 52, longitude = Num 0,
         validity = True, pressureAltitude = Num 587, gnssAltitude = Num 614 \<rparr>,
      \<lparr> igcFix.time = ''23:59:10'', timestamp = Num 86350, latitude = Num 52, longitude = Num 0,
         validity = True, pressureAltitude = Num 590, gnssAltitude = Num 617 \<rparr>,
      \<lparr> igcFix.time = ''00:00:40'', timestamp = Num 40, latitude = Num 52, longitude = Num 0,
         validity = True, pressureAltitude = Num 600, gnssAltitude = Num 627 \<rparr>]) = Num 140"
  (is "duration (calculateFlightStats ?fs) = Num 140")
proof -
  have ne: "?fs \<noteq> []"
    by simp
  have m: "map timestamp ?fs = [Num 86300, Num 86350, Num 40]"
    by simp
  from duration_midnight_wrap [OF ne] m show ?thesis
    by blast
qed

lemma split_no_newline: "newline \<notin> set l \<Longrightarrow> split l = [l]"
  by (induction l) auto

lemma split_append_newline: "newline \<notin> set l \<Longrightarrow> split (l @ newline # r) = l # split r"
  by (induction l) auto

lemma split_joinLines_Cons:
  assumes "\<forall>x\<in>set (l # ls). newline \<notin> set x"
  shows "split (l @ concat (map (\<lambda>x. newline # x) ls)) = l # ls"
  using assms
proof (induction ls arbitrary: l)
  case Nil
  then show ?case by (simp add: split_no_newline)
next
  case (Cons a ls)
  then show ?case by (simp add: split_append_newline)
qed

lemma split_joinLines:
  assumes "ls \<noteq> []" and "\<forall>x\<in>set ls. newline \<notin> set x"
  shows "split (joinLines ls) = ls"
  using assms split_joinLines_Cons by (cases ls) (auto simp: joinLines_def)

lemma headerLine_empty: "headerLine h [] = h"
  by (simp add: headerLine_def match_defs)

lemma fixLine_empty: "fixLine fs [] = fs"
  by (simp add: fixLine_def startsWith_def)

lemma parse_joinLines:
  assumes "\<forall>x\<in>set ls. newline \<notin> set x"
  shows "parse (joinLines ls) = parseLines ls"
proof (cases ls)
  case Nil
  then show ?thesis
    by (simp add: parse_def joinLines_def parseLines_def parseHeader_def headerLine_empty fixLine_empty)
next
  case (Cons a list)
  with assms split_joinLines [of ls] show ?thesis
    by (simp add: parse_def)
qed

lemma parseBRecord_short: "length l < 35 \<Longrightarrow> parseBRecord l = None"
  by (simp add: parseBRecord_def)

lemma fixLine_short: "length l < 35 \<Longrightarrow> fixLine fs l = fs"
  by (simp add: fixLine_def parseBRecord_short)

lemma foldl_fixLine_short:
  assumes "length l < 35"
  shows "foldl fixLine [] (xs @ [l] @ ys) = foldl fixLine [] (xs @ ys)"
  using assms by (simp add: fixLine_short)

text \<open>A line that no branch of the header decoding accepts leaves the header as it is.\<close>

lemma headerLine_inert:
  assumes "\<not> startsWith l ''HFDTE''" and "\<not> hasTag ''PLT'' l" and "\<not> hasTag ''GTY'' l"
    and "\<not> hasTag ''GID'' l" and "\<not> hasTag ''CID'' l"
    and "\<not> startsWith l ''HFRFW''" and "\<not> startsWith l ''HFRHW''"
  shows "headerLine h l = h"
  using assms by (simp add: headerLine_def)

text \<open>
  C5, as amended. For every line shorter than 35 characters \<open>parseBRecord\<close> returns null, and
  the fixes and the statistics of the parse result are those of the log without the line.
  The whole parse result is that of the log without the line when the line also leaves the
  header as it is. (The lines are the lines of the log text: they hold no line feed.)
\<close>

theorem short_line_skipped:
  assumes "length l < 35" and "\<forall>x\<in>set (xs @ [l] @ ys). newline \<notin> set x"
  shows "parseBRecord l = None
         \<and> fixes (parse (joinLines (xs @ [l] @ ys))) = fixes (parse (joinLines (xs @ ys)))
         \<and> stats (parse (joinLines (xs @ [l] @ ys))) = stats (parse (joinLines (xs @ ys)))
         \<and> ((\<forall>h. headerLine h l = h) \<longrightarrow>
              parse (joinLines (xs @ [l] @ ys)) = parse (joinLines (xs @ ys)))"
proof -
  have nl: "\<forall>x\<in>set (xs @ ys). newline \<notin> set x"
    using assms(2) by auto
  have p1: "parse (joinLines (xs @ [l] @ ys)) = parseLines (xs @ [l] @ ys)"
    using assms(2) by (rule parse_joinLines)
  have p2: "parse (joinLines (xs @ ys)) = parseLines (xs @ ys)"
    using nl by (rule parse_joinLines)
  have f: "foldl fixLine [] (xs @ [l] @ ys) = foldl fixLine [] (xs @ ys)"
    using assms(1) by (rule foldl_fixLine_short)
  have h: "parseHeader (xs @ [l] @ ys) = parseHeader (xs @ ys)" if "\<forall>h. headerLine h l = h"
    using that by (simp add: parseHeader_def)
  have w: "parseLines (xs @ [l] @ ys) = parseLines (xs @ ys)" if "\<forall>h. headerLine h l = h"
    unfolding parseLines_def f h [OF that] ..
  have c1: "parseBRecord l = None"
    using assms(1) by (rule parseBRecord_short)
  have c2: "fixes (parse (joinLines (xs @ [l] @ ys))) = fixes (parse (joinLines (xs @ ys)))"
    unfolding p1 p2 fixes_parseLines f ..
  have c3: "stats (parse (joinLines (xs @ [l] @ ys))) = stats (parse (joinLines (xs @ ys)))"
    unfolding p1 p2 stats_parseLines f ..
  have c4: "(\<forall>h. headerLine h l = h) \<longrightarrow>
      parse (joinLines (xs @ [l] @ ys)) = parse (joinLines (xs @ ys))"
    unfolding p1 p2 using w by blast
  from c1 c2 c3 c4 show ?thesis
    by blast
qed

theorem short_line_skipped_witness:
  "parseBRecord ''B1101355206343N'' = None
   \<and> fixes (parse (joinLines ([''HFPLTPILOT:Bob''] @ [''B1101355206343N''] @ [''HFDTE230599''])))
       = fixes (parse (joinLines ([''HFPLTPILOT:Bob''] @ [''HFDTE230599''])))
   \<and> stats (parse (joinLines ([''HFPLTPILOT:Bob''] @ [''B1101355206343N''] @ [''HFDTE230599''])))
       = stats (parse (joinLines ([''HFPLTPILOT:Bob''] @ [''HFDTE230599''])))
   \<and> parse (joinLines ([''HFPLTPILOT:Bob''] @ [''B1101355206343N''] @ [''HFDTE230599'']))
       = parse (joinLines ([''HFPLTPILOT:Bob''] @ [''HFDTE230599'']))"
proof -
  have 1: "length ''B1101355206343N'' < 35"
    by simp
  have 2: "\<forall>x\<in>set ([''HFPLTPILOT:Bob''] @ [''B1101355206343N''] @ [''HFDTE230599'']). newline \<notin> set x"
    by (simp add: newline_def)
  have 3: "\<forall>h. headerLine h ''B1101355206343N'' = h"
    by (simp add: headerLine_def match_defs)
  from short_line_skipped [OF 1 2] 3 show ?thesis
    by blast
qed

text \<open>
  The claim fails on a short B line that holds a header tag: the patterns of the pilot, the
  glider type, the glider id and the competition id are searched anywhere in a line, so the
  line sets the pilot, and the parse result differs from that of the log without the line.
\<close>

theorem short_line_skipped_counterexample:
  "length ''BHFPLT:Bob'' < 35
   \<and> startsWith ''BHFPLT:Bob'' ''B''
   \<and> parseBRecord ''BHFPLT:Bob'' = None
   \<and> pilot (header (parse (joinLines [''HFPLTPILOT:Alice'', ''BHFPLT:Bob'']))) = ''Bob''
   \<and> pilot (header (parse (joinLines [''HFPLTPILOT:Alice'']))) = ''Alice''
   \<and> parse (joinLines [''HFPLTPILOT:Alice'', ''BHFPLT:Bob'']) \<noteq> parse (joinLines [''HFPLTPILOT:Alice''])"
proof -
  have a: "pilot (header (parse (joinLines [''HFPLTPILOT:Alice'', ''BHFPLT:Bob'']))) = ''Bob''"
    by (simp add: parse_def joinLines_def header_parseLines parseHeader_def initialHeader_def
        headerLine_def match_defs newline_def)
  have b: "pilot (header (parse (joinLines [''HFPLTPILOT:Alice'']))) = ''Alice''"
    by (simp add: parse_def joinLines_def header_parseLines parseHeader_def initialHeader_def
        headerLine_def match_defs newline_def)
  from a b have "parse (joinLines [''HFPLTPILOT:Alice'', ''BHFPLT:Bob'']) \<noteq> parse (joinLines [''HFPLTPILOT:Alice''])"
    by auto
  with a b show ?thesis
    by (simp add: parseBRecord_short startsWith_def)
qed

section \<open>Properties of the geometry\<close>

lemma atan2_bounds: "- pi < atan2 y x \<and> atan2 y x \<le> pi"
proof -
  have l: "- (pi / 2) < arctan (y / x)" and u: "arctan (y / x) < pi / 2"
    by (rule arctan_lbound, rule arctan_ubound)
  have neg: "arctan (y / x) \<le> 0" if "x < 0" "0 \<le> y"
    using that by (simp add: arctan_le_zero_iff divide_nonneg_neg)
  have pos: "0 < arctan (y / x)" if "x < 0" "y < 0"
    using that by (simp add: zero_less_arctan_iff divide_neg_neg)
  show ?thesis
    using l u neg pos pi_gt_zero by (auto simp: atan2_def)
qed

lemma atan2_nonneg:
  assumes "0 \<le> y"
  shows "0 \<le> atan2 y x"
proof -
  have l: "- (pi / 2) < arctan (y / x)"
    by (rule arctan_lbound)
  have p: "0 < pi"
    by (rule pi_gt_zero)
  consider "0 < x" | "x < 0" | "x = 0"
    by linarith
  then show ?thesis
  proof cases
    case 1
    then have "0 \<le> arctan (y / x)"
      using assms by (simp add: zero_le_arctan_iff)
    with 1 show ?thesis
      by (simp add: atan2_def)
  next
    case 2
    from l p have "0 \<le> arctan (y / x) + pi"
      by linarith
    with 2 assms show ?thesis
      by (simp add: atan2_def)
  next
    case 3
    with assms p show ?thesis
      by (simp add: atan2_def)
  qed
qed


text \<open>Products that stay below the overflow limit are exact.\<close>

lemma overflowLimit_bounds: "10 ^ 308 < overflowLimit" "overflowLimit \<le> 2 * 10 ^ 308"
  by (simp_all add: overflowLimit_def)

lemma js_mul_Num:
  assumes "\<bar>a * b\<bar> \<le> 10 ^ 308"
  shows "js_mul (Num a) (Num b) = Num (a * b)"
  using assms overflowLimit_bounds(1) by simp

lemma js_mul_unit:
  assumes "\<bar>a\<bar> \<le> 1" and "\<bar>b\<bar> \<le> 1"
  shows "js_mul (Num a) (Num b) = Num (a * b)"
proof -
  have "\<bar>a * b\<bar> \<le> 1 * 1"
    unfolding abs_mult using assms by (intro mult_mono) simp_all
  then have "\<bar>a * b\<bar> \<le> 10 ^ 308"
    by simp
  then show ?thesis
    by (rule js_mul_Num)
qed

lemma js_mul_PI:
  assumes "\<bar>a\<bar> \<le> 2 * 10 ^ 307"
  shows "js_mul (Num a) Math_PI = Num (a * pi)"
proof -
  have "\<bar>a * pi\<bar> = \<bar>a\<bar> * pi"
    by (simp add: abs_mult)
  also have "\<dots> \<le> (2 * 10 ^ 307) * 4"
    using assms pi_less_4 by (intro mult_mono) simp_all
  also have "\<dots> \<le> 10 ^ 308"
    by simp
  finally show ?thesis
    unfolding Math_PI_def by (rule js_mul_Num)
qed

lemma unit_prod: "\<bar>a\<bar> \<le> 1 \<Longrightarrow> \<bar>b\<bar> \<le> 1 \<Longrightarrow> \<bar>a * b\<bar> \<le> (1::real)"
proof -
  assume "\<bar>a\<bar> \<le> 1" "\<bar>b\<bar> \<le> 1"
  then have "\<bar>a\<bar> * \<bar>b\<bar> \<le> 1 * 1"
    by (intro mult_mono) simp_all
  then show ?thesis
    by (simp add: abs_mult)
qed

lemma js_mul_trig:
  "js_mul (Num (sin a)) (Num (cos b)) = Num (sin a * cos b)"
  "js_mul (Num (cos a)) (Num (sin b)) = Num (cos a * sin b)"
  "js_mul (Num (sin a)) (Num (sin b)) = Num (sin a * sin b)"
  "js_mul (Num (cos a)) (Num (cos b)) = Num (cos a * cos b)"
  "js_mul (Num (sin a * cos b)) (Num (cos c)) = Num (sin a * cos b * cos c)"
  "js_mul (Num (cos a * cos b)) (Num (sin c)) = Num (cos a * cos b * sin c)"
  "js_mul (Num (cos a * cos b * sin c)) (Num (sin d)) = Num (cos a * cos b * sin c * sin d)"
  by (intro js_mul_unit unit_prod abs_sin_le_one abs_cos_le_one)+

lemma js_mul_atan2_180: "js_mul (Num (atan2 y x)) (Num 180) = Num (atan2 y x * 180)"
proof -
  have "\<bar>atan2 y x\<bar> \<le> pi"
    using atan2_bounds [of y x] by linarith
  then have "\<bar>atan2 y x\<bar> \<le> 4"
    using pi_less_4 by linarith
  then have "\<bar>atan2 y x * 180\<bar> \<le> 4 * 180"
    by (simp add: abs_mult)
  then have "\<bar>atan2 y x * 180\<bar> \<le> 10 ^ 308"
    by simp
  then show ?thesis
    by (rule js_mul_Num)
qed

text \<open>
  The bearing of two points whose coordinates are of magnitude at most \<open>10^307\<close>: no product
  overflows, and the result is a number in \<open>[0, 360)\<close>.
\<close>

lemma calculateBearing_exact:
  assumes "\<bar>lat1\<bar> \<le> 10 ^ 307" and "\<bar>lon1\<bar> \<le> 10 ^ 307" and "\<bar>lat2\<bar> \<le> 10 ^ 307"
    and "\<bar>lon2\<bar> \<le> 10 ^ 307"
  shows "calculateBearing (Num lat1) (Num lon1) (Num lat2) (Num lon2) =
     Num (atan2 (sin ((lon2 - lon1) * pi / 180) * cos (lat2 * pi / 180))
            (cos (lat1 * pi / 180) * sin (lat2 * pi / 180)
              - sin (lat1 * pi / 180) * cos (lat2 * pi / 180) * cos ((lon2 - lon1) * pi / 180))
            * 180 / pi + 360
          - 360 * of_int (truncReal ((atan2 (sin ((lon2 - lon1) * pi / 180) * cos (lat2 * pi / 180))
            (cos (lat1 * pi / 180) * sin (lat2 * pi / 180)
              - sin (lat1 * pi / 180) * cos (lat2 * pi / 180) * cos ((lon2 - lon1) * pi / 180))
            * 180 / pi + 360) / 360)))"
proof -
  have m1: "js_mul (Num lat1) Math_PI = Num (lat1 * pi)"
    using assms(1) by (intro js_mul_PI) simp
  have m2: "js_mul (Num lat2) Math_PI = Num (lat2 * pi)"
    using assms(3) by (intro js_mul_PI) simp
  have "\<bar>lon2 - lon1\<bar> \<le> 2 * 10 ^ 307"
    using assms(2,4) by linarith
  then have m3: "js_mul (Num (lon2 - lon1)) Math_PI = Num ((lon2 - lon1) * pi)"
    by (rule js_mul_PI)
  have s: "js_sub (Num lon2) (Num lon1) = Num (lon2 - lon1)"
    by (simp add: js_sub_def)
  have d: "js_div (Num a) (Num 180) = Num (a / 180)" "js_div (Num a) Math_PI = Num (a / pi)" for a
    by (simp_all add: Math_PI_def)
  show ?thesis
    unfolding calculateBearing_def Let_def s m1 m2 m3 d Math_sin.simps Math_cos.simps js_mul_trig
      Math_atan2.simps js_mul_atan2_180
    by (simp add: js_sub_def js_mul_atan2_180 d del: js_mul.simps)
qed








text \<open>The distance of a point to itself is 0.\<close>

lemma overflowLimit_pos: "0 < overflowLimit"
  using overflowLimit_bounds(1) by (rule less_trans [rotated]) simp

lemma js_mul_zero: "js_mul (Num 0) (Num b) = Num 0" "js_mul (Num a) (Num 0) = Num 0"
  using overflowLimit_pos by simp_all

lemma calculateHaversineDistance_same:
  assumes "\<bar>la\<bar> \<le> 10 ^ 307"
  shows "calculateHaversineDistance (Num la) (Num lo) (Num la) (Num lo) = Num 0"
proof -
  have m: "js_mul (Num la) Math_PI = Num (la * pi)"
    using assms by (intro js_mul_PI) simp
  have z: "js_mul (Num 0) Math_PI = Num 0"
    unfolding Math_PI_def by (rule js_mul_zero)
  have s: "js_sub (Num x) (Num x) = Num 0" for x
    by (simp add: js_sub_def)
  have d: "js_div (Num 0) (Num 180) = Num 0" "js_div (Num 0) (Num 2) = Num 0"
    "js_div (Num (la * pi)) (Num 180) = Num (la * pi / 180)"
    by simp_all
  have a: "Math_atan2 (Math_sqrt (Num 0)) (Math_sqrt (js_sub (Num 1) (Num 0))) = Num 0"
    by (simp add: js_sub_def atan2_def)
  show ?thesis
    unfolding calculateHaversineDistance_def Let_def s z m d Math_sin.simps Math_cos.simps sin_zero
      js_mul_zero js_mul_trig js_add.simps add_0 a
    by simp
qed

section \<open>Properties of the waypoint budget\<close>

lemma Math_min_Num: "Math_min (Num a) (Num b) = Num (min a b)"
  by (simp add: Math_min_def min_def)

lemma Math_max_Num: "Math_max (Num a) (Num b) = Num (max a b)"
  by (simp add: Math_max_def max_def)

lemma js_le_Num: "js_le (Num a) (Num b) = (a \<le> b)"
  by (auto simp: js_le_def)

lemmas num_simps = Math_min_Num Math_max_Num js_le_Num js_sub_def

text \<open>
  The base count of every level has one shape: a cap and a distance per point. The budget
  of a distance that is a real number follows in real arithmetic.
\<close>

lemma baseCount_shape:
  "\<exists>cap k. 0 < k \<and> cap \<le> 12 \<and> cap * k \<le> 300 \<and> baseCount Infinity level = Num cap
     \<and> (\<forall>d. baseCount (Num d) level = Num (min cap (of_int \<lceil>d / k\<rceil>)))"
proof -
  consider "level = ''low''" | "level = ''medium''" | "level = ''high''"
    | "level \<noteq> ''low''" "level \<noteq> ''medium''" "level \<noteq> ''high''"
    by blast
  then show ?thesis
  proof cases
    case 1
    then have "0 < (15::real) \<and> (12::real) \<le> 12 \<and> (12::real) * 15 \<le> 300
      \<and> baseCount Infinity level = Num 12
      \<and> (\<forall>d. baseCount (Num d) level = Num (min 12 (of_int \<lceil>d / 15\<rceil>)))"
      by (simp add: baseCount_def Math_min_Num) (simp add: Math_min_def ofSign_def)
    then show ?thesis
      by blast
  next
    case 2
    then have "0 < (25::real) \<and> (8::real) \<le> 12 \<and> (8::real) * 25 \<le> 300
      \<and> baseCount Infinity level = Num 8
      \<and> (\<forall>d. baseCount (Num d) level = Num (min 8 (of_int \<lceil>d / 25\<rceil>)))"
      by (simp add: baseCount_def Math_min_Num) (simp add: Math_min_def ofSign_def)
    then show ?thesis
      by blast
  next
    case 3
    then have "0 < (40::real) \<and> (5::real) \<le> 12 \<and> (5::real) * 40 \<le> 300
      \<and> baseCount Infinity level = Num 5
      \<and> (\<forall>d. baseCount (Num d) level = Num (min 5 (of_int \<lceil>d / 40\<rceil>)))"
      by (simp add: baseCount_def Math_min_Num) (simp add: Math_min_def ofSign_def)
    then show ?thesis
      by blast
  next
    case 4
    then have "0 < (25::real) \<and> (8::real) \<le> 12 \<and> (8::real) * 25 \<le> 300
      \<and> baseCount Infinity level = Num 8
      \<and> (\<forall>d. baseCount (Num d) level = Num (min 8 (of_int \<lceil>d / 25\<rceil>)))"
      by (simp add: baseCount_def Math_min_Num) (simp add: Math_min_def ofSign_def)
    then show ?thesis
      by blast
  qed
qed

lemma getTargetWaypointCount_Num:
  assumes "baseCount (Num d) level = Num b"
  shows "getTargetWaypointCount (Num d) level =
     Num (min 13 (if d \<le> 20 then max 2 b
                  else if d \<le> 100 then max 3 (min 13 (b + 1))
                  else if d \<le> 300 then max 4 (min 13 (b + 2))
                  else max 5 (min 13 (b + 3))))"
  by (simp add: getTargetWaypointCount_def assms num_simps Let_def)

lemma getTargetWaypointCount_Infinity_base:
  assumes "baseCount Infinity level = Num c"
  shows "getTargetWaypointCount Infinity level = Num (min 13 (max 5 (min 13 (c + 3))))"
  by (simp add: getTargetWaypointCount_def assms num_simps Let_def) (simp add: js_le_def)

lemma bracket_form:
  fixes b d :: real
  assumes "b \<le> 12"
  shows "\<exists>j. j = (if d \<le> 20 then 0 else if d \<le> 100 then 1 else if d \<le> 300 then 2 else 3)
    \<and> min 13 (if d \<le> 20 then max 2 b
               else if d \<le> 100 then max 3 (min 13 (b + 1))
               else if d \<le> 300 then max 4 (min 13 (b + 2))
               else max 5 (min 13 (b + 3)))
      = min 13 (max (2 + j) (min 13 (b + j)))"
  using assms by simp

lemma budget_mono:
  fixes b1 b2 d1 d2 :: real
  assumes "b1 \<le> b2" and "d1 \<le> d2" and "b2 \<le> 12"
  shows "min 13 (if d1 \<le> 20 then max 2 b1
                  else if d1 \<le> 100 then max 3 (min 13 (b1 + 1))
                  else if d1 \<le> 300 then max 4 (min 13 (b1 + 2))
                  else max 5 (min 13 (b1 + 3)))
       \<le> min 13 (if d2 \<le> 20 then max 2 b2
                  else if d2 \<le> 100 then max 3 (min 13 (b2 + 1))
                  else if d2 \<le> 300 then max 4 (min 13 (b2 + 2))
                  else max 5 (min 13 (b2 + 3)))"
proof -
  from assms have b1: "b1 \<le> 12"
    by simp
  obtain j1 :: real where j1: "j1 = (if d1 \<le> 20 then 0 else if d1 \<le> 100 then 1 else if d1 \<le> 300 then 2 else 3)"
    and f1: "min 13 (if d1 \<le> 20 then max 2 b1
               else if d1 \<le> 100 then max 3 (min 13 (b1 + 1))
               else if d1 \<le> 300 then max 4 (min 13 (b1 + 2))
               else max 5 (min 13 (b1 + 3)))
      = min 13 (max (2 + j1) (min 13 (b1 + j1)))"
    using bracket_form [OF b1, of d1] by blast
  obtain j2 :: real where j2: "j2 = (if d2 \<le> 20 then 0 else if d2 \<le> 100 then 1 else if d2 \<le> 300 then 2 else 3)"
    and f2: "min 13 (if d2 \<le> 20 then max 2 b2
               else if d2 \<le> 100 then max 3 (min 13 (b2 + 1))
               else if d2 \<le> 300 then max 4 (min 13 (b2 + 2))
               else max 5 (min 13 (b2 + 3)))
      = min 13 (max (2 + j2) (min 13 (b2 + j2)))"
    using bracket_form [OF assms(3), of d2] by blast
  have j: "j1 \<le> j2"
    unfolding j1 j2 using assms(2) by simp
  have "min 13 (max (2 + j1) (min 13 (b1 + j1))) \<le> min 13 (max (2 + j2) (min 13 (b2 + j2)))"
    using j assms(1) by (intro min.mono max.mono add_mono order_refl)
  then show ?thesis
    unfolding f1 f2 .
qed

lemma baseCount_mono:
  assumes "d1 \<le> d2"
  shows "\<exists>b1 b2. baseCount (Num d1) level = Num b1 \<and> baseCount (Num d2) level = Num b2
           \<and> b1 \<le> b2 \<and> b2 \<le> 12"
proof -
  obtain cap k :: real where s: "0 < k" "cap \<le> 12"
    "\<forall>d. baseCount (Num d) level = Num (min cap (of_int \<lceil>d / k\<rceil>))"
    using baseCount_shape [of level] by blast
  have "\<lceil>d1 / k\<rceil> \<le> \<lceil>d2 / k\<rceil>"
    using assms s(1) by (intro ceiling_mono divide_right_mono) simp_all
  then have "(of_int \<lceil>d1 / k\<rceil> :: real) \<le> of_int \<lceil>d2 / k\<rceil>"
    by simp
  then have "min cap (of_int \<lceil>d1 / k\<rceil>) \<le> min cap (of_int \<lceil>d2 / k\<rceil>)"
    by (intro min.mono order_refl)
  moreover have "min cap (of_int \<lceil>d2 / k\<rceil>) \<le> 12"
    using s(2) by (simp add: min_le_iff_disj)
  ultimately show ?thesis
    using s(3) by blast
qed

lemma budget_mono_Num:
  assumes "d1 \<le> d2"
  shows "\<exists>c1 c2. getTargetWaypointCount (Num d1) level = Num c1
           \<and> getTargetWaypointCount (Num d2) level = Num c2 \<and> c1 \<le> c2 \<and> c2 \<le> 13"
proof -
  obtain b1 b2 where b: "baseCount (Num d1) level = Num b1" "baseCount (Num d2) level = Num b2"
    "b1 \<le> b2" "b2 \<le> 12"
    using baseCount_mono [OF assms] by blast
  note g1 = getTargetWaypointCount_Num [OF b(1)] and g2 = getTargetWaypointCount_Num [OF b(2)]
  note m = budget_mono [OF b(3) assms b(4)]
  have u: "min 13 x \<le> 13" for x :: real
    by simp
  show ?thesis
    by (intro exI conjI, rule g1, rule g2, rule m, rule u)
qed

lemma getTargetWaypointCount_Infinity:
  assumes "300 < D"
  shows "getTargetWaypointCount Infinity level = getTargetWaypointCount (Num D) level"
proof -
  obtain cap k :: real where s: "0 < k" "cap * k \<le> 300" "baseCount Infinity level = Num cap"
    "\<forall>d. baseCount (Num d) level = Num (min cap (of_int \<lceil>d / k\<rceil>))"
    using baseCount_shape [of level] by blast
  have "cap * k \<le> D"
    using s(2) assms by simp
  then have "cap \<le> D / k"
    using s(1) by (simp add: pos_le_divide_eq)
  also have "D / k \<le> of_int \<lceil>D / k\<rceil>"
    by (rule le_of_int_ceiling)
  finally have "min cap (of_int \<lceil>D / k\<rceil>) = cap"
    by simp
  with s(4) have b: "baseCount (Num D) level = Num cap"
    by simp
  have "\<not> D \<le> 20" "\<not> D \<le> 100" "\<not> D \<le> 300"
    using assms by simp_all
  then show ?thesis
    unfolding getTargetWaypointCount_Infinity_base [OF s(3)] getTargetWaypointCount_Num [OF b]
    by (simp only: if_False)
qed


text \<open>
  C3. For each of the levels low, medium and high the budget does not decrease when the
  distance grows, over all distances from 0 on (the positive infinity included), and it
  never exceeds 13. The comparison \<open>js_le\<close> is JavaScript's \<open><=\<close>, which holds of no NaN.
\<close>

theorem getTargetWaypointCount_mono:
  assumes "level \<in> {''low'', ''medium'', ''high''}"
    and "js_le (Num 0) d1" and "js_le d1 d2"
  shows "js_le (getTargetWaypointCount d1 level) (getTargetWaypointCount d2 level)
         \<and> js_le (getTargetWaypointCount d2 level) (Num 13)"
proof -
  have fin: "js_le (getTargetWaypointCount (Num a) level) (getTargetWaypointCount (Num b) level)
         \<and> js_le (getTargetWaypointCount (Num b) level) (Num 13)" if "a \<le> b" for a b
    using budget_mono_Num [OF that, of level] by (auto simp: js_le_Num)
  from assms(2) have c1: "(\<exists>a. d1 = Num a) \<or> d1 = Infinity"
    by (cases d1) (auto simp: js_le_def)
  from assms(2,3) have c2: "(\<exists>b. d2 = Num b) \<or> d2 = Infinity"
    by (cases d1; cases d2) (auto simp: js_le_def)
  have c3: "d2 = Infinity" if "d1 = Infinity"
    using assms(3) that by (cases d2) (auto simp: js_le_def)
  from c1 c2 c3 consider
      (nn) a b where "d1 = Num a" "d2 = Num b"
    | (ni) a where "d1 = Num a" "d2 = Infinity"
    | (ii) "d1 = Infinity" "d2 = Infinity"
    by blast
  then show ?thesis
  proof cases
    case nn
    with assms(3) have "a \<le> b"
      by (simp add: js_le_Num)
    from fin [OF this] nn show ?thesis
      by simp
  next
    case ni
    have "a \<le> max a 301" and "300 < max a 301"
      by simp_all
    from fin [OF this(1)] show ?thesis
      unfolding ni getTargetWaypointCount_Infinity [OF \<open>300 < max a 301\<close>, of level] .
  next
    case ii
    have "(301::real) \<le> 301" and "(300::real) < 301"
      by simp_all
    from fin [OF this(1)] show ?thesis
      unfolding ii getTargetWaypointCount_Infinity [OF \<open>(300::real) < 301\<close>, of level] .
  qed
qed

lemma baseCount_low: "baseCount (Num d) ''low'' = Num (min 12 (of_int \<lceil>d / 15\<rceil>))"
  by (simp add: baseCount_def Math_min_Num)

lemma getTargetWaypointCount_20: "getTargetWaypointCount (Num 20) ''low'' = Num 2"
  by (simp add: getTargetWaypointCount_Num [OF baseCount_low])

lemma getTargetWaypointCount_150: "getTargetWaypointCount (Num 150) ''low'' = Num 12"
  by (simp add: getTargetWaypointCount_Num [OF baseCount_low])

theorem getTargetWaypointCount_mono_witness:
  "js_le (getTargetWaypointCount (Num 20) ''low'') (getTargetWaypointCount (Num 150) ''low'')
   \<and> js_le (getTargetWaypointCount (Num 150) ''low'') (Num 13)
   \<and> getTargetWaypointCount (Num 20) ''low'' = Num 2
   \<and> getTargetWaypointCount (Num 150) ''low'' = Num 12"
proof -
  have 1: "''low'' \<in> {''low'', ''medium'', ''high''}"
    by simp
  have 2: "js_le (Num 0) (Num 20)" and 3: "js_le (Num 20) (Num 150)"
    by (simp_all add: js_le_Num)
  from getTargetWaypointCount_mono [OF 1 2 3] getTargetWaypointCount_20 getTargetWaypointCount_150
  show ?thesis
    by blast
qed

text \<open>
  Whatever the distance and the level are, the budget is NaN or a number from 2 to 13: the
  last two steps are a \<open>Math.max\<close> with a floor of at least 2 and a \<open>Math.min\<close> with 13.
\<close>

lemma min_max_range:
  assumes "2 \<le> k" and "k \<le> 13"
  shows "Math_min (Num 13) (Math_max (Num k) y) = NaN
         \<or> (\<exists>r. Math_min (Num 13) (Math_max (Num k) y) = Num r \<and> 2 \<le> r \<and> r \<le> 13)"
  using assms by (cases y) (auto simp: Math_min_def Math_max_def)

lemma getTargetWaypointCount_range:
  "getTargetWaypointCount d level = NaN
   \<or> (\<exists>r. getTargetWaypointCount d level = Num r \<and> 2 \<le> r \<and> r \<le> 13)"
proof -
  have k: "(2::real) \<le> 2" "(2::real) \<le> 13" "(2::real) \<le> 3" "(3::real) \<le> 13"
    "(2::real) \<le> 4" "(4::real) \<le> 13" "(2::real) \<le> 5" "(5::real) \<le> 13"
    by simp_all
  show ?thesis
    unfolding getTargetWaypointCount_def Let_def js_sub_def
    using min_max_range [OF k(1,2)] min_max_range [OF k(3,4)] min_max_range [OF k(5,6)]
      min_max_range [OF k(7,8)]
    by simp
qed

lemma getTargetWaypointCount_not_le_0: "\<not> js_le (getTargetWaypointCount d level) (Num 0)"
  using getTargetWaypointCount_range [of d level] by (auto simp: js_le_def)

text \<open>
  For a distance from 0 on (the positive infinity included) the budget is a number, and an
  integer, since every operand of its minima and maxima is one.
\<close>

lemma getTargetWaypointCount_int:
  assumes "js_le (Num 0) d"
  shows "\<exists>n::int. getTargetWaypointCount d level = Num (of_int n)"
proof -
  have fin: "\<exists>n::int. getTargetWaypointCount (Num a) level = Num (of_int n)" for a
  proof -
    obtain cap k :: real where s: "\<forall>d. baseCount (Num d) level = Num (min cap (of_int \<lceil>d / k\<rceil>))"
      and c: "baseCount Infinity level = Num cap"
      using baseCount_shape [of level] by blast
    have "cap \<in> \<int>"
    proof -
      have "baseCount Infinity level \<in> {Num 12, Num 8, Num 5}"
        by (simp add: baseCount_def Math_min_def ofSign_def)
      with c show ?thesis
        by auto
    qed
    then have "min cap (of_int \<lceil>a / k\<rceil>) \<in> \<int>"
      by (simp add: min_def)
    then obtain m :: int where m: "min cap (of_int \<lceil>a / k\<rceil>) = of_int m"
      by (auto elim: Ints_cases)
    have b: "baseCount (Num a) level = Num (of_int m)"
      using s m by simp
    have "min 13 (if a \<le> 20 then max 2 (of_int m)
                  else if a \<le> 100 then max 3 (min 13 (of_int m + 1))
                  else if a \<le> 300 then max 4 (min 13 (of_int m + 2))
                  else max 5 (min 13 (of_int m + 3))) \<in> (\<int> :: real set)"
      by (simp add: min_def max_def)
    then show ?thesis
      unfolding getTargetWaypointCount_Num [OF b] by (auto elim: Ints_cases)
  qed
  from assms consider a where "d = Num a" | "d = Infinity"
    by (cases d) (auto simp: js_le_def)
  then show ?thesis
  proof cases
    case 1
    with fin show ?thesis
      by simp
  next
    case 2
    have "(300::real) < 301"
      by simp
    from fin [of 301] show ?thesis
      unfolding 2 getTargetWaypointCount_Infinity [OF \<open>(300::real) < 301\<close>, of level] .
  qed
qed

text \<open>The distance of a flight is NaN or a number that is not negative.\<close>

lemma haversine_angle_range:
  "js_mul (Num 6371) (js_mul (Num 2) (Math_atan2 (Math_sqrt a) (Math_sqrt (js_sub (Num 1) a)))) = NaN
   \<or> (\<exists>r. js_mul (Num 6371) (js_mul (Num 2) (Math_atan2 (Math_sqrt a) (Math_sqrt (js_sub (Num 1) a))))
         = Num r \<and> 0 \<le> r)"
proof (cases a)
  case (Num x)
  show ?thesis
  proof (cases "0 \<le> x \<and> x \<le> 1")
    case True
    define t where "t = atan2 (sqrt x) (sqrt (1 - x))"
    have t: "0 \<le> t" "t \<le> 4"
      using atan2_nonneg [of "sqrt x" "sqrt (1 - x)"] atan2_bounds [of "sqrt x" "sqrt (1 - x)"]
        pi_less_4 True unfolding t_def by simp_all
    have a: "Math_atan2 (Math_sqrt a) (Math_sqrt (js_sub (Num 1) a)) = Num t"
      using True by (simp add: Num js_sub_def t_def)
    have "\<bar>2 * t\<bar> \<le> 10 ^ 308"
      using t by simp
    then have m2: "js_mul (Num 2) (Num t) = Num (2 * t)"
      by (rule js_mul_Num)
    have "\<bar>6371 * (2 * t)\<bar> \<le> 10 ^ 308"
      using t by simp
    then have m: "js_mul (Num 6371) (Num (2 * t)) = Num (6371 * (2 * t))"
      by (rule js_mul_Num)
    have "0 \<le> 6371 * (2 * t)"
      using t by simp
    then show ?thesis
      unfolding a m2 m by blast
  next
    case False
    then have "Math_atan2 (Math_sqrt a) (Math_sqrt (js_sub (Num 1) a)) = NaN"
      by (auto simp: Num js_sub_def)
    then show ?thesis
      by simp
  qed
qed (simp_all add: js_sub_def)

lemma calculateHaversineDistance_range:
  "calculateHaversineDistance lat1 lon1 lat2 lon2 = NaN
   \<or> (\<exists>r. calculateHaversineDistance lat1 lon1 lat2 lon2 = Num r \<and> 0 \<le> r)"
  unfolding calculateHaversineDistance_def Let_def by (rule haversine_angle_range)

lemma foldl_distance_range:
  assumes "acc = NaN \<or> (\<exists>r. acc = Num r \<and> 0 \<le> r)"
  shows "foldl (\<lambda>d (p, c). js_add d
           (calculateHaversineDistance (latitude p) (longitude p) (latitude c) (longitude c))) acc ps = NaN
         \<or> (\<exists>r. foldl (\<lambda>d (p, c). js_add d
           (calculateHaversineDistance (latitude p) (longitude p) (latitude c) (longitude c))) acc ps
             = Num r \<and> 0 \<le> r)"
  using assms
proof (induction ps arbitrary: acc)
  case Nil
  then show ?case by simp
next
  case (Cons pc ps)
  obtain p c where pc: "pc = (p, c)"
    by (cases pc)
  have "js_add acc (calculateHaversineDistance (latitude p) (longitude p) (latitude c) (longitude c)) = NaN
    \<or> (\<exists>r. js_add acc (calculateHaversineDistance (latitude p) (longitude p) (latitude c) (longitude c))
          = Num r \<and> 0 \<le> r)"
    using Cons.prems calculateHaversineDistance_range [of "latitude p" "longitude p" "latitude c" "longitude c"]
    by auto
  from Cons.IH [OF this] show ?case
    by (simp add: pc)
qed

lemma calculateTotalDistance_range:
  "calculateTotalDistance fs = NaN \<or> (\<exists>r. calculateTotalDistance fs = Num r \<and> 0 \<le> r)"
proof -
  have "Num 0 = NaN \<or> (\<exists>r. Num 0 = Num r \<and> (0::real) \<le> r)"
    by simp
  from foldl_distance_range [OF this, of "pairs fs"] show ?thesis
    unfolding calculateTotalDistance_def by (cases "length fs < 2") simp_all
qed

text \<open>
  C9. For every distance from 0 on and every level string the budget is an integer from 2
  to 13. So the test \<open>maxWaypoints <= 0\<close> of \<open>generateWaypoints\<close> is false for the distance of
  every fix sequence (which is NaN or a number from 0 on; the budget of NaN is NaN), and the
  early return is never taken.
\<close>

theorem getTargetWaypointCount_at_least_2:
  "(js_le (Num 0) d \<longrightarrow>
      (\<exists>n::int. getTargetWaypointCount d level = Num (of_int n) \<and> 2 \<le> n \<and> n \<le> 13))
   \<and> \<not> js_le (getTargetWaypointCount (calculateTotalDistance fs) level) (Num 0)"
proof -
  have "\<exists>n::int. getTargetWaypointCount d level = Num (of_int n) \<and> 2 \<le> n \<and> n \<le> 13"
    if "js_le (Num 0) d"
  proof -
    from getTargetWaypointCount_int [OF that] obtain n :: int
      where n: "getTargetWaypointCount d level = Num (of_int n)"
      by blast
    with getTargetWaypointCount_range [of d level] have "2 \<le> (of_int n :: real) \<and> (of_int n :: real) \<le> 13"
      by auto
    then have "2 \<le> n \<and> n \<le> 13"
      by linarith
    with n show ?thesis
      by blast
  qed
  with getTargetWaypointCount_not_le_0 show ?thesis
    by blast
qed

lemma baseCount_medium: "baseCount (Num d) ''medium'' = Num (min 8 (of_int \<lceil>d / 25\<rceil>))"
  by (simp add: baseCount_def Math_min_Num)

theorem getTargetWaypointCount_at_least_2_witness:
  "getTargetWaypointCount (Num 0) ''medium'' = Num 2
   \<and> (\<exists>n::int. getTargetWaypointCount (Num 0) ''medium'' = Num (of_int n) \<and> 2 \<le> n \<and> n \<le> 13)
   \<and> \<not> js_le (getTargetWaypointCount (calculateTotalDistance []) ''medium'') (Num 0)"
proof -
  have 1: "js_le (Num 0) (Num 0)"
    by (simp add: js_le_Num)
  have 2: "getTargetWaypointCount (Num 0) ''medium'' = Num 2"
    by (simp add: getTargetWaypointCount_Num [OF baseCount_medium])
  from getTargetWaypointCount_at_least_2 [of "Num 0" "''medium''" "[]"] 1 2 show ?thesis
    by blast
qed

section \<open>Properties of the waypoint selection\<close>

lemma length_insertBy: "length (insertBy cmp x ys) = Suc (length ys)"
  by (induction ys) simp_all

lemma length_sortBy: "length (sortBy cmp xs) = length xs"
  unfolding sortBy_def by (induction xs) (simp_all add: length_insertBy)

lemma length_slice0:
  assumes "e = NaN \<or> (\<exists>r. e = Num r \<and> 2 \<le> r \<and> r \<le> 13)"
  shows "length (slice0 xs e) \<le> 13"
proof -
  have "nat (truncReal r) \<le> 13 \<and> \<not> truncReal r < 0" if "2 \<le> r" "r \<le> 13" for r
  proof -
    from that have f: "\<lfloor>r\<rfloor> \<le> 13" "0 \<le> \<lfloor>r\<rfloor>"
      by linarith+
    from that have t: "truncReal r = \<lfloor>r\<rfloor>"
      by (simp add: truncReal_def)
    from f have "nat \<lfloor>r\<rfloor> \<le> 13" "\<not> \<lfloor>r\<rfloor> < 0"
      by linarith+
    then show ?thesis
      unfolding t by blast
  qed
  note t = this
  from assms show ?thesis
  proof
    assume "e = NaN"
    then show ?thesis
      by (simp add: slice0_def)
  next
    assume "\<exists>r. e = Num r \<and> 2 \<le> r \<and> r \<le> 13"
    then obtain r where r: "e = Num r" "2 \<le> r" "r \<le> 13"
      by blast
    from t [OF r(2,3)] have n: "nat (truncReal r) \<le> 13" and "\<not> truncReal r < 0"
      by blast+
    moreover from n have "length (take (nat (truncReal r)) xs) \<le> 13"
      unfolding length_take by (rule min.coboundedI2)
    ultimately have "length (take (nat (truncReal r)) xs) \<le> 13" "\<not> truncReal r < 0"
      by blast+
    then show ?thesis
      unfolding slice0_def r(1) by (simp only: jsnum.case if_False)
  qed
qed

lemma foldl_addSelected:
  "\<exists>ws. foldl (addSelected fs) (w # wps) cs = w # ws \<and> length ws = length wps + length cs"
proof (induction cs arbitrary: wps)
  case Nil
  then show ?case by simp
next
  case (Cons c cs)
  have "addSelected fs (w # wps) c = w # (wps @ [waypointOf
      ((if type c = ''turn'' then ''TURN'' else ''WP'') @ decimal (length (w # wps))) (fs ! fix c)])"
    by (simp add: addSelected_def)
  with Cons.IH [of "wps @ [waypointOf
      ((if type c = ''turn'' then ''TURN'' else ''WP'') @ decimal (length (w # wps))) (fs ! fix c)]"]
  show ?case
    by auto
qed

text \<open>
  The shape of the result for a fix sequence that is not empty: the takeoff, at most 13
  selected waypoints, the landing.
\<close>

lemma generateWaypoints_shape:
  assumes "fixes fd \<noteq> []"
  shows "\<exists>ws. fst (generateWaypoints g fd level)
           = waypointOf ''TAKEOFF'' (hd (fixes fd)) # ws @ [waypointOf ''LANDING'' (last (fixes fd))]
         \<and> length ws \<le> 13"
proof -
  let ?m = "getTargetWaypointCount (calculateTotalDistance (fixes fd)) level"
  let ?sel = "sortBy (\<lambda>a b. js_sub (Num (real (fix a))) (Num (real (fix b))))
     (slice0 (sortBy (\<lambda>a b. js_sub (importance b) (importance a))
        (concat (map (possibleAt (fixes fd) (turnThreshold level)) (triples (sampleFixes (length (fixes fd)))))))
      ?m)"
  have m: "\<not> js_le ?m (Num 0)"
    by (rule getTargetWaypointCount_not_le_0)
  have l: "length ?sel \<le> 13"
    unfolding length_sortBy using getTargetWaypointCount_range by (rule length_slice0)
  obtain ws where ws: "foldl (addSelected (fixes fd)) [waypointOf ''TAKEOFF'' (hd (fixes fd))] ?sel
      = waypointOf ''TAKEOFF'' (hd (fixes fd)) # ws" "length ws = length ?sel"
    using foldl_addSelected [of "fixes fd" "waypointOf ''TAKEOFF'' (hd (fixes fd))" "[]" ?sel] by auto
  have "fst (generateWaypoints g fd level)
      = waypointOf ''TAKEOFF'' (hd (fixes fd)) # ws @ [waypointOf ''LANDING'' (last (fixes fd))]"
    using assms m by (simp add: generateWaypoints_def Let_def ws(1))
  with l ws(2) show ?thesis
    by auto
qed

text \<open>
  C2. For every fix sequence that is not empty and every level, the returned waypoints start
  with TAKEOFF, whose position, altitude and time are those of the first fix, end with
  LANDING, a copy of the last fix, and are at most 15 (and at least 2).
\<close>

theorem generateWaypoints_endpoints:
  assumes "fixes fd \<noteq> []"
  shows "hd (fst (generateWaypoints g fd level))
           = \<lparr> name = ''TAKEOFF'', lat = latitude (hd (fixes fd)), lng = longitude (hd (fixes fd)),
               altitude = pressureAltitude (hd (fixes fd)), time = igcFix.time (hd (fixes fd)) \<rparr>
         \<and> last (fst (generateWaypoints g fd level))
           = \<lparr> name = ''LANDING'', lat = latitude (last (fixes fd)), lng = longitude (last (fixes fd)),
               altitude = pressureAltitude (last (fixes fd)), time = igcFix.time (last (fixes fd)) \<rparr>
         \<and> 2 \<le> length (fst (generateWaypoints g fd level))
         \<and> length (fst (generateWaypoints g fd level)) \<le> 15
         \<and> waypoints (snd (generateWaypoints g fd level)) = fst (generateWaypoints g fd level)"
proof -
  obtain ws where ws: "fst (generateWaypoints g fd level)
      = waypointOf ''TAKEOFF'' (hd (fixes fd)) # ws @ [waypointOf ''LANDING'' (last (fixes fd))]"
    "length ws \<le> 13"
    using generateWaypoints_shape [OF assms] by blast
  have s: "waypoints (snd (generateWaypoints g fd level)) = fst (generateWaypoints g fd level)"
    using assms by (simp add: generateWaypoints_def Let_def)
  from ws s show ?thesis
    by (simp add: waypointOf_def)
qed

lemma sampleFixes_2: "sampleFixes 2 = [0, 1]"
proof -
  have "[0..<2] = [0, 1]"
    by (simp add: upt_rec)
  then show ?thesis
    by (simp add: sampleFixes_def)
qed

text \<open>
  C6. For a flight of exactly two fixes and every level string the result is exactly the
  TAKEOFF waypoint, a copy of the first fix, and the LANDING waypoint, a copy of the second.
\<close>

theorem generateWaypoints_two_fixes:
  assumes "fixes fd = [f1, f2]"
  shows "fst (generateWaypoints g fd level) = [waypointOf ''TAKEOFF'' f1, waypointOf ''LANDING'' f2]
         \<and> map name (fst (generateWaypoints g fd level)) = [''TAKEOFF'', ''LANDING'']"
proof -
  have m: "\<not> js_le (getTargetWaypointCount (calculateTotalDistance [f1, f2]) level) (Num 0)"
    by (rule getTargetWaypointCount_not_le_0)
  have s: "slice0 [] e = []" for e :: jsnum and xs :: "candidate list"
    by (cases e) (simp_all add: slice0_def)
  have "length [f1, f2] = 2"
    by simp
  then have t: "triples (sampleFixes (length [f1, f2])) = []"
    by (simp only: sampleFixes_2) (simp add: triples_def)
  have "fst (generateWaypoints g fd level) = [waypointOf ''TAKEOFF'' f1, waypointOf ''LANDING'' f2]"
    using m unfolding generateWaypoints_def Let_def assms t
    by (simp add: sortBy_def s)
  then show ?thesis
    by (simp add: waypointOf_def)
qed

theorem generateWaypoints_endpoints_witness:
  "fst (generateWaypoints \<lparr> waypoints = [], flightDistance = Num 0, currentOptimizationLevel = ''medium'' \<rparr>
     \<lparr> header = initialHeader,
       fixes = [\<lparr> igcFix.time = ''11:01:35'', timestamp = Num 39695, latitude = Num 52, longitude = Num 0,
                  validity = True, pressureAltitude = Num 587, gnssAltitude = Num 614 \<rparr>,
                \<lparr> igcFix.time = ''11:01:39'', timestamp = Num 39699, latitude = Num 52, longitude = Num 0,
                  validity = True, pressureAltitude = Num 590, gnssAltitude = Num 617 \<rparr>,
                \<lparr> igcFix.time = ''11:01:43'', timestamp = Num 39703, latitude = Num 52, longitude = Num 0,
                  validity = True, pressureAltitude = Num 600, gnssAltitude = Num 627 \<rparr>],
       task = None,
       stats = calculateFlightStats [] \<rparr> ''low'')
   = [\<lparr> name = ''TAKEOFF'', lat = Num 52, lng = Num 0, altitude = Num 587, time = ''11:01:35'' \<rparr>,
      \<lparr> name = ''LANDING'', lat = Num 52, lng = Num 0, altitude = Num 600, time = ''11:01:43'' \<rparr>]"
  (is "fst (generateWaypoints ?g ?fd ''low'') = [?t, ?l]")
proof -
  have ne: "fixes ?fd \<noteq> []"
    by simp
  have "\<bar>52::real\<bar> \<le> 10 ^ 307"
    by simp
  then have d: "calculateHaversineDistance (Num 52) (Num 0) (Num 52) (Num 0) = Num 0"
    by (rule calculateHaversineDistance_same)
  have s: "sampleFixes 3 = [0, 1, 2]"
  proof -
    have "[0..<3] = [0, 1, 2]"
      by (simp add: upt_rec)
    then show ?thesis
      by (simp add: sampleFixes_def)
  qed
  have "length (fixes ?fd) = 3"
    by simp
  then have p: "concat (map (possibleAt (fixes ?fd) (turnThreshold ''low'')) (triples (sampleFixes (length (fixes ?fd))))) = []"
    by (simp only: s) (simp add: triples_def possibleAt_def d)
  have e: "slice0 [] e = []" for e :: jsnum and xs :: "candidate list"
    by (cases e) (simp_all add: slice0_def)
  have m: "\<not> js_le (getTargetWaypointCount (calculateTotalDistance (fixes ?fd)) ''low'') (Num 0)"
    by (rule getTargetWaypointCount_not_le_0)
  have two: "fst (generateWaypoints ?g ?fd ''low'') = [?t, ?l]"
    using m unfolding generateWaypoints_def Let_def p
    by (simp add: sortBy_def e waypointOf_def)
  from generateWaypoints_endpoints [OF ne, of ?g "''low''"] two show ?thesis
    by simp
qed

theorem generateWaypoints_two_fixes_witness:
  "fst (generateWaypoints \<lparr> waypoints = [], flightDistance = Num 0, currentOptimizationLevel = ''medium'' \<rparr>
     \<lparr> header = initialHeader,
       fixes = [\<lparr> igcFix.time = ''11:01:35'', timestamp = Num 39695, latitude = Num 52, longitude = Num 0,
                  validity = True, pressureAltitude = Num 587, gnssAltitude = Num 614 \<rparr>,
                \<lparr> igcFix.time = ''12:30:00'', timestamp = Num 45000, latitude = Num 53, longitude = Num 1,
                  validity = True, pressureAltitude = Num 600, gnssAltitude = Num 627 \<rparr>],
       task = None,
       stats = calculateFlightStats [] \<rparr> ''high'')
   = [\<lparr> name = ''TAKEOFF'', lat = Num 52, lng = Num 0, altitude = Num 587, time = ''11:01:35'' \<rparr>,
      \<lparr> name = ''LANDING'', lat = Num 53, lng = Num 1, altitude = Num 600, time = ''12:30:00'' \<rparr>]"
  (is "fst (generateWaypoints ?g ?fd ''high'') = _")
proof -
  have "fixes ?fd = [\<lparr> igcFix.time = ''11:01:35'', timestamp = Num 39695, latitude = Num 52, longitude = Num 0,
                  validity = True, pressureAltitude = Num 587, gnssAltitude = Num 614 \<rparr>,
                \<lparr> igcFix.time = ''12:30:00'', timestamp = Num 45000, latitude = Num 53, longitude = Num 1,
                  validity = True, pressureAltitude = Num 600, gnssAltitude = Num 627 \<rparr>]"
    by simp
  from generateWaypoints_two_fixes [OF this, of ?g "''high''"] show ?thesis
    by (simp add: waypointOf_def)
qed

section \<open>Properties of the export\<close>

lemma decimal_small: "n < 10 \<Longrightarrow> decimal n = [digitChar n]"
  by (subst decimal.simps) simp

lemma decimal_big: "10 \<le> n \<Longrightarrow> decimal n = decimal (n div 10) @ [digitChar (n mod 10)]"
  by (subst decimal.simps) simp

lemmas decimal_eval = decimal_small decimal_big digitChar_def

lemma generateCSV_not_empty: "generateCSV fmt g \<noteq> Some []"
  by (simp add: generateCSV_def)

lemma generateGPX_not_empty: "generateGPX fmt now g \<noteq> Some []"
  by (simp add: generateGPX_def)

text \<open>Without waypoints there is no payload: the call reports that there is no data.\<close>

lemma generateQRCode_no_waypoints:
  assumes \<open>waypoints g = []\<close>
  shows \<open>generateQRCode fmt now g True format
    = Message ''<p class="text-danger">No waypoint data available</p>''\<close>
  using assms by (simp add: generateQRCode_def generateGPX_def generateCSV_def)

text \<open>
  C7. With the element on the page and waypoints to export, the primary payload (GPX for
  the format \<open>gpx\<close>, CSV otherwise) and the compact CSV (one row per waypoint of the name and
  the two coordinates with 5 decimals, no header row) both exist, and the call hands the
  primary payload to the encoder when it has at most 1500 characters, else the compact one
  when that has at most 1500 characters, else it reports too many waypoints and hands over
  nothing. A payload handed over is the whole primary or the whole compact payload and has
  at most 1500 characters.
\<close>

theorem generateQRCode_size_policy:
  assumes \<open>waypoints g \<noteq> []\<close>
  shows \<open>\<exists>primary compact.
     (if format = ''gpx'' then generateGPX fmt now g else generateCSV fmt g) = Some primary
     \<and> generateCompactCSV fmt g = Some compact
     \<and> compact = concat (map (\<lambda>w. name w @ '','' @ toFixed fmt 5 (lat w) @ '','' @ toFixed fmt 5 (lng w)
          @ [newline]) (waypoints g))
     \<and> generateQRCode fmt now g True format =
         (if length primary \<le> 1500 then Encode primary
          else if length compact \<le> 1500 then Encode compact
          else Message ''<p class="text-danger">Too many waypoints for QR code</p>'')
     \<and> (\<forall>d. generateQRCode fmt now g True format = Encode d \<longrightarrow>
           length d \<le> 1500 \<and> (d = primary \<or> d = compact))\<close>
proof -
  have "\<exists>primary. (if format = ''gpx'' then generateGPX fmt now g else generateCSV fmt g) = Some primary"
    using assms by (simp add: generateGPX_def generateCSV_def)
  then obtain primary where p: "(if format = ''gpx'' then generateGPX fmt now g else generateCSV fmt g) = Some primary"
    by blast
  have ne: "primary \<noteq> []"
    using p generateCSV_not_empty [of fmt g] generateGPX_not_empty [of fmt now g]
    by (auto split: if_splits)
  define compact where "compact = concat (map (compactRow fmt) (waypoints g))"
  have c: "generateCompactCSV fmt g = Some compact"
    using assms by (simp add: generateCompactCSV_def compact_def)
  have c': "compact = concat (map (\<lambda>w. name w @ '','' @ toFixed fmt 5 (lat w) @ '','' @ toFixed fmt 5 (lng w)
          @ [newline]) (waypoints g))"
    unfolding compact_def compactRow_def ..
  have q: \<open>generateQRCode fmt now g True format =
         (if length primary \<le> 1500 then Encode primary
          else if length compact \<le> 1500 then Encode compact
          else Message ''<p class="text-danger">Too many waypoints for QR code</p>'')\<close>
    unfolding generateQRCode_def p c using ne by (simp add: not_less)
  have e: "length d \<le> 1500 \<and> (d = primary \<or> d = compact)"
    if "generateQRCode fmt now g True format = Encode d" for d
    using that unfolding q by (auto split: if_splits)
  from p c c' q e show ?thesis
    by blast
qed

theorem generateQRCode_size_policy_witness:
  "generateQRCode (\<lambda>r. []) ''2026-01-01T00:00:00.000Z''
     \<lparr> waypoints = [\<lparr> name = ''TAKEOFF'', lat = Num 52, lng = Num 0, altitude = Num 587, time = ''11:01:35'' \<rparr>],
       flightDistance = Num 0, currentOptimizationLevel = ''medium'' \<rparr> True ''csv''
   = Encode (''name,latitude,longitude,altitude'' @ [newline] @ ''TAKEOFF,52.000000,0.000000,587'' @ [newline])"
  (is "generateQRCode ?fmt ?now ?g True ''csv'' = Encode ?data")
proof -
  have w: "waypoints ?g \<noteq> []"
    by simp
  have r: "replicate 5 c = [c, c, c, c, c]" for c :: char
    by (simp add: numeral_eq_Suc)
  have t: "toFixed ?fmt 6 (Num 52) = ''52.000000''" "toFixed ?fmt 6 (Num 0) = ''0.000000''"
    by (simp_all add: toFixed_def decimal_eval Let_def r)
  have n: "numberToString ?fmt (Num 587) = ''587''"
    by (simp add: numberToString_def decimal_eval)
  have p: "(if ''csv'' = ''gpx'' then generateGPX ?fmt ?now ?g else generateCSV ?fmt ?g) = Some ?data"
    by (simp add: generateCSV_def csvRow_def t n)
  have l: "length ?data \<le> 1500"
    by simp
  from generateQRCode_size_policy [OF w, of "''csv''" ?fmt ?now] p l show ?thesis
    by auto
qed

text \<open>
  The two other branches of the size policy, on one waypoint with a long name: with 1470
  characters the CSV payload has 1503 characters and the compact one, of 1488 characters,
  is handed over; with 1600 characters both are too long and nothing is handed over.
\<close>

lemma toFixed_examples:
  "toFixed fmt 6 (Num 52) = ''52.000000''" "toFixed fmt 6 (Num 0) = ''0.000000''"
  "toFixed fmt 5 (Num 52) = ''52.00000''" "toFixed fmt 5 (Num 0) = ''0.00000''"
proof -
  have r: "replicate 5 c = [c, c, c, c, c]" "replicate 4 c = [c, c, c, c]" for c :: char
    by (simp_all add: numeral_eq_Suc)
  show "toFixed fmt 6 (Num 52) = ''52.000000''" "toFixed fmt 6 (Num 0) = ''0.000000''"
    "toFixed fmt 5 (Num 52) = ''52.00000''" "toFixed fmt 5 (Num 0) = ''0.00000''"
    by (simp_all add: toFixed_def decimal_eval Let_def r)
qed

lemma generateQRCode_fallback_example:
  "generateQRCode fmt now
     \<lparr> waypoints = [\<lparr> name = replicate 1470 CHR ''A'', lat = Num 52, lng = Num 0, altitude = Num 587,
                      time = ''11:01:35'' \<rparr>],
       flightDistance = Num 0, currentOptimizationLevel = ''medium'' \<rparr> True ''csv''
   = Encode (replicate 1470 CHR ''A'' @ '',52.00000,0.00000'' @ [newline])"
  by (simp add: generateQRCode_def generateCSV_def csvRow_def generateCompactCSV_def compactRow_def
      toFixed_examples numberToString_def decimal_eval)

lemma generateQRCode_too_many_example:
  \<open>generateQRCode fmt now
     \<lparr> waypoints = [\<lparr> name = replicate 1600 CHR ''A'', lat = Num 52, lng = Num 0, altitude = Num 587,
                      time = ''11:01:35'' \<rparr>],
       flightDistance = Num 0, currentOptimizationLevel = ''medium'' \<rparr> True ''csv''
   = Message ''<p class="text-danger">Too many waypoints for QR code</p>''\<close>
  by (simp add: generateQRCode_def generateCSV_def csvRow_def generateCompactCSV_def compactRow_def
      toFixed_examples numberToString_def decimal_eval)

section \<open>The levels outside low, medium and high\<close>

text \<open>
  The returned waypoints of a flight with fixes, for any level string: the early return is
  never taken, so the result is the takeoff, the selected candidates and the landing.
\<close>

lemma generateWaypoints_result:
  assumes "fixes fd \<noteq> []"
  shows "fst (generateWaypoints g fd level) =
     foldl (addSelected (fixes fd)) [waypointOf ''TAKEOFF'' (hd (fixes fd))]
       (sortBy (\<lambda>a b. js_sub (Num (real (fix a))) (Num (real (fix b))))
          (slice0
             (sortBy (\<lambda>a b. js_sub (importance b) (importance a))
                (concat (map (possibleAt (fixes fd) (turnThreshold level))
                   (triples (sampleFixes (length (fixes fd)))))))
             (getTargetWaypointCount (calculateTotalDistance (fixes fd)) level)))
     @ [waypointOf ''LANDING'' (last (fixes fd))]"
proof -
  have m: "\<not> js_le (getTargetWaypointCount (calculateTotalDistance (fixes fd)) level) (Num 0)"
    by (rule getTargetWaypointCount_not_le_0)
  show ?thesis
    using assms m by (simp add: generateWaypoints_def Let_def)
qed

lemma unknown_level_parameters:
  assumes "level \<notin> {''low'', ''medium'', ''high''}"
  shows "baseCount d level = Math_min (Num 8) (Math_ceil (js_div d (Num 25)))"
    and "baseCount d ''medium'' = Math_min (Num 8) (Math_ceil (js_div d (Num 25)))"
    and "getTargetWaypointCount d level = getTargetWaypointCount d ''medium''"
    and "turnThreshold level = Num 60"
    and "turnThreshold ''high'' = Num 60"
    and "turnThreshold ''medium'' = Num 45"
proof -
  show b: "baseCount d level = Math_min (Num 8) (Math_ceil (js_div d (Num 25)))"
    and m: "baseCount d ''medium'' = Math_min (Num 8) (Math_ceil (js_div d (Num 25)))"
    using assms by (simp_all add: baseCount_def)
  show "getTargetWaypointCount d level = getTargetWaypointCount d ''medium''"
    unfolding getTargetWaypointCount_def b m ..
  show "turnThreshold level = Num 60" "turnThreshold ''high'' = Num 60"
    "turnThreshold ''medium'' = Num 45"
    using assms by (simp_all add: turnThreshold_def)
qed

text \<open>
  The haversine term \<open>a\<close> lies in \<open>[0, 1]\<close> for all real coordinates, so the distance of two
  points with coordinates of magnitude at most \<open>10^307\<close> is a number that is not negative.
\<close>

lemma haversine_term_range:
  fixes p q l :: real
  shows "0 \<le> sin ((q - p) / 2) * sin ((q - p) / 2) + cos p * cos q * (sin (l / 2) * sin (l / 2))
         \<and> sin ((q - p) / 2) * sin ((q - p) / 2) + cos p * cos q * (sin (l / 2) * sin (l / 2)) \<le> 1"
proof -
  define u where "u = sin ((q - p) / 2) * sin ((q - p) / 2)"
  define s where "s = sin (l / 2) * sin (l / 2)"
  define c where "c = cos p * cos q"
  have half: "sin (x / 2) * sin (x / 2) = (1 - cos x) / 2" for x :: real
    using cos_double_sin [of "x / 2"] by (simp add: power2_eq_square)
  have s: "0 \<le> s" "s \<le> 1"
    unfolding s_def half using cos_ge_minus_one [of l] cos_le_one [of l] by simp_all
  have u: "0 \<le> u" "u \<le> 1"
    unfolding u_def half using cos_ge_minus_one [of "q - p"] cos_le_one [of "q - p"] by simp_all
  have "2 * (u + c) = 1 + cos (p + q)"
    unfolding u_def c_def half by (simp add: cos_diff cos_add field_simps)
  then have "0 \<le> u + c \<and> u + c \<le> 1"
    using cos_ge_minus_one [of "p + q"] cos_le_one [of "p + q"] by argo
  then have uc: "0 \<le> u + c" "u + c \<le> 1"
    by blast+
  have "0 \<le> u + c * s \<and> u + c * s \<le> 1"
  proof (cases "0 \<le> c")
    case True
    have "0 \<le> c * s"
      using True s(1) by (rule mult_nonneg_nonneg)
    moreover have "c * s \<le> c * 1"
      using s(2) True by (rule mult_left_mono)
    ultimately have "0 \<le> c * s" "c * s \<le> c * 1"
      by blast+
    with u uc show ?thesis
      by argo
  next
    case False
    then have c0: "c \<le> 0"
      by simp
    have "c * s \<le> 0"
      using c0 s(1) by (rule mult_nonpos_nonneg)
    moreover have "c * 1 \<le> c * s"
      using s(2) c0 by (rule mult_left_mono_neg)
    ultimately have "c * s \<le> 0" "c * 1 \<le> c * s"
      by blast+
    with u uc show ?thesis
      by argo
  qed
  then show ?thesis
    unfolding u_def s_def c_def .
qed
lemma calculateHaversineDistance_exact:
  assumes "\<bar>la1\<bar> \<le> 10 ^ 307" and "\<bar>lo1\<bar> \<le> 10 ^ 307" and "\<bar>la2\<bar> \<le> 10 ^ 307"
    and "\<bar>lo2\<bar> \<le> 10 ^ 307"
  shows "calculateHaversineDistance (Num la1) (Num lo1) (Num la2) (Num lo2) =
     Num (6371 * (2 * atan2
       (sqrt (sin ((la2 - la1) * pi / 180 / 2) * sin ((la2 - la1) * pi / 180 / 2)
          + cos (la1 * pi / 180) * cos (la2 * pi / 180) * sin ((lo2 - lo1) * pi / 180 / 2)
            * sin ((lo2 - lo1) * pi / 180 / 2)))
       (sqrt (1 - (sin ((la2 - la1) * pi / 180 / 2) * sin ((la2 - la1) * pi / 180 / 2)
          + cos (la1 * pi / 180) * cos (la2 * pi / 180) * sin ((lo2 - lo1) * pi / 180 / 2)
            * sin ((lo2 - lo1) * pi / 180 / 2))))))"
    (is "_ = Num (6371 * (2 * atan2 (sqrt ?A) (sqrt (1 - ?A))))")
proof -
  have m1: "js_mul (Num la1) Math_PI = Num (la1 * pi)"
    using assms(1) by (intro js_mul_PI) simp
  have m2: "js_mul (Num la2) Math_PI = Num (la2 * pi)"
    using assms(3) by (intro js_mul_PI) simp
  have "\<bar>la2 - la1\<bar> \<le> 2 * 10 ^ 307"
    using assms(1,3) by linarith
  then have m3: "js_mul (Num (la2 - la1)) Math_PI = Num ((la2 - la1) * pi)"
    by (rule js_mul_PI)
  have "\<bar>lo2 - lo1\<bar> \<le> 2 * 10 ^ 307"
    using assms(2,4) by linarith
  then have m4: "js_mul (Num (lo2 - lo1)) Math_PI = Num ((lo2 - lo1) * pi)"
    by (rule js_mul_PI)
  have s: "js_sub (Num x) (Num y) = Num (x - y)" for x y
    by (simp add: js_sub_def)
  have d: "js_div (Num x) (Num 180) = Num (x / 180)" "js_div (Num x) (Num 2) = Num (x / 2)" for x
    by simp_all
  have "?A = sin ((la2 * pi / 180 - la1 * pi / 180) / 2) * sin ((la2 * pi / 180 - la1 * pi / 180) / 2)
      + cos (la1 * pi / 180) * cos (la2 * pi / 180)
        * (sin ((lo2 - lo1) * pi / 180 / 2) * sin ((lo2 - lo1) * pi / 180 / 2))"
    by (simp add: algebra_simps diff_divide_distrib)
  with haversine_term_range [of "la2 * pi / 180" "la1 * pi / 180" "(lo2 - lo1) * pi / 180"]
  have A: "0 \<le> ?A" "?A \<le> 1"
    by simp_all
  define t where "t = atan2 (sqrt ?A) (sqrt (1 - ?A))"
  have t: "0 \<le> t" "t \<le> 4"
    using atan2_nonneg [of "sqrt ?A" "sqrt (1 - ?A)"] atan2_bounds [of "sqrt ?A" "sqrt (1 - ?A)"]
      pi_less_4 A unfolding t_def by simp_all
  have a: "Math_atan2 (Math_sqrt (Num ?A)) (Math_sqrt (Num (1 - ?A))) = Num t"
    using A by (simp add: t_def)
  have "\<bar>2 * t\<bar> \<le> 10 ^ 308"
    using t by simp
  then have k2: "js_mul (Num 2) (Num t) = Num (2 * t)"
    by (rule js_mul_Num)
  have "\<bar>6371 * (2 * t)\<bar> \<le> 10 ^ 308"
    using t by simp
  then have k: "js_mul (Num 6371) (Num (2 * t)) = Num (6371 * (2 * t))"
    by (rule js_mul_Num)
  have "calculateHaversineDistance (Num la1) (Num lo1) (Num la2) (Num lo2)
      = js_mul (Num 6371) (js_mul (Num 2)
          (Math_atan2 (Math_sqrt (Num ?A)) (Math_sqrt (Num (1 - ?A)))))"
    unfolding calculateHaversineDistance_def Let_def s m1 m2 m3 m4 d Math_sin.simps Math_cos.simps
      js_mul_trig js_add.simps ..
  then have "calculateHaversineDistance (Num la1) (Num lo1) (Num la2) (Num lo2)
      = Num (6371 * (2 * t))"
    unfolding a k2 k .
  then show ?thesis
    unfolding t_def .
qed

lemma calculateHaversineDistance_Num:
  assumes "\<bar>la1\<bar> \<le> 10 ^ 307" and "\<bar>lo1\<bar> \<le> 10 ^ 307" and "\<bar>la2\<bar> \<le> 10 ^ 307"
    and "\<bar>lo2\<bar> \<le> 10 ^ 307"
  shows "\<exists>r. calculateHaversineDistance (Num la1) (Num lo1) (Num la2) (Num lo2) = Num r \<and> 0 \<le> r"
  using calculateHaversineDistance_range [of "Num la1" "Num lo1" "Num la2" "Num lo2"]
  unfolding calculateHaversineDistance_exact [OF assms] by simp
text \<open>
  Three points, all far apart: \<open>A\<close> at latitude 0 and longitude 0, \<open>B\<close> at latitude 0 and
  longitude 90, \<open>C\<close> at latitude 45 and longitude 135. From \<open>A\<close> to \<open>B\<close> the bearing is 90, back
  from \<open>B\<close> to \<open>A\<close> it is 270, and the two points are a quarter of the equator apart.
\<close>

lemma small_coordinate: "\<bar>x\<bar> \<le> 1000 \<Longrightarrow> \<bar>x\<bar> \<le> (10::real) ^ 307"
proof -
  have "(1000::real) \<le> 10 ^ 307"
    by simp
  then show "\<bar>x\<bar> \<le> 1000 \<Longrightarrow> \<bar>x\<bar> \<le> (10::real) ^ 307"
    by linarith
qed

lemma coordinates_small:
  "\<bar>0::real\<bar> \<le> 10 ^ 307" "\<bar>90::real\<bar> \<le> 10 ^ 307" "\<bar>45::real\<bar> \<le> 10 ^ 307"
  "\<bar>135::real\<bar> \<le> 10 ^ 307"
  by (rule small_coordinate, simp)+

lemma angles:
  "(90::real) * pi / 180 = pi / 2" "(45::real) * pi / 180 = pi / 4"
  "(90::real) * pi / 180 / 2 = pi / 4" "- (90::real) * pi / 180 = - (pi / 2)"
  "- (90::real) * pi / 180 / 2 = - (pi / 4)"
  by simp_all

lemma atan2_diagonal: "0 < s \<Longrightarrow> atan2 s s = pi / 4"
  by (simp add: atan2_def arctan_one)

lemma half_sqrt: "sqrt 2 / 2 * (sqrt 2 / 2) = (1 / 2 :: real)"
  by simp

lemma calculateHaversineDistance_AB:
  "calculateHaversineDistance (Num 0) (Num 0) (Num 0) (Num 90) = Num (6371 * (2 * (pi / 4)))"
  "calculateHaversineDistance (Num 0) (Num 90) (Num 0) (Num 0) = Num (6371 * (2 * (pi / 4)))"
proof -
  have s: "(0::real) < sqrt (1 / 2)"
    by simp
  have a: "atan2 (sqrt (1 / 2)) (sqrt (1 / 2)) = pi / 4"
    by (rule atan2_diagonal [OF s])
  show "calculateHaversineDistance (Num 0) (Num 0) (Num 0) (Num 90) = Num (6371 * (2 * (pi / 4)))"
    unfolding calculateHaversineDistance_exact [OF coordinates_small(1,1,1,2)]
    by (simp add: angles sin_45 half_sqrt a)
  show "calculateHaversineDistance (Num 0) (Num 90) (Num 0) (Num 0) = Num (6371 * (2 * (pi / 4)))"
    unfolding calculateHaversineDistance_exact [OF coordinates_small(1,2,1,1)]
    by (simp add: angles sin_45 half_sqrt a)
qed

lemma calculateBearing_AB: "calculateBearing (Num 0) (Num 0) (Num 0) (Num 90) = Num 90"
  unfolding calculateBearing_exact [OF coordinates_small(1,1,1,2)]
  by (simp add: angles atan2_def truncReal_def)

lemma calculateBearing_BA: "calculateBearing (Num 0) (Num 90) (Num 0) (Num 0) = Num 270"
  unfolding calculateBearing_exact [OF coordinates_small(1,2,1,1)]
  by (simp add: angles atan2_def truncReal_def)

lemma calculateCourseChange_ABA:
  "calculateCourseChange (Num 0) (Num 0) (Num 0) (Num 90) (Num 0) (Num 0) = Num 180"
  by (simp add: calculateCourseChange_def calculateBearing_AB calculateBearing_BA js_sub_def js_gt_def)

lemma calculateCourseChange_BAB:
  "calculateCourseChange (Num 0) (Num 90) (Num 0) (Num 0) (Num 0) (Num 90) = Num 180"
  by (simp add: calculateCourseChange_def calculateBearing_AB calculateBearing_BA js_sub_def js_gt_def)

text \<open>
  From \<open>B\<close> to \<open>C\<close> the bearing lies between 30 and 45, so the course change at \<open>B\<close> on the way
  from \<open>A\<close> over \<open>B\<close> to \<open>C\<close> lies between 45 and 60: a turn for the threshold 45, none for 60.
\<close>

lemma arctan_inv_sqrt2: "pi / 6 < arctan (1 / sqrt 2) \<and> arctan (1 / sqrt 2) < pi / 4"
proof -
  have "arctan (tan (pi / 6)) = pi / 6"
    using pi_gt_zero by (intro arctan_tan) simp_all
  then have a: "arctan (1 / sqrt 3) = pi / 6"
    by (simp add: tan_30)
  have "(1::real) / sqrt 3 < 1 / sqrt 2"
    by (simp add: frac_less2)
  then have "arctan (1 / sqrt 3) < arctan (1 / sqrt 2)"
    by (simp only: arctan_less_iff)
  moreover have "(1::real) / sqrt 2 < 1"
    by simp
  then have "arctan (1 / sqrt 2) < arctan 1"
    by (simp only: arctan_less_iff)
  ultimately show ?thesis
    unfolding a arctan_one by blast
qed

lemma calculateBearing_BC:
  "\<exists>b. calculateBearing (Num 0) (Num 90) (Num 45) (Num 135) = Num b \<and> 30 < b \<and> b < 45"
proof -
  define th where "th = arctan (1 / sqrt 2)"
  have th: "pi / 6 < th" "th < pi / 4"
    using arctan_inv_sqrt2 unfolding th_def by blast+
  have q: "sqrt 2 / 2 * (sqrt 2 / 2) / (sqrt 2 / 2) = (1 / sqrt 2 :: real)"
    by (simp add: field_simps)
  have a: "atan2 (sin ((135 - 90) * pi / 180) * cos (45 * pi / 180))
       (cos (0 * pi / 180) * sin (45 * pi / 180)
         - sin (0 * pi / 180) * cos (45 * pi / 180) * cos ((135 - 90) * pi / 180)) = th"
    unfolding th_def by (simp add: angles sin_45 cos_45 atan2_def q)
  define b where "b = th * 180 / pi"
  have b: "30 < b" "b < 45"
    using th pi_gt_zero unfolding b_def by (simp_all add: field_simps)
  then have "\<lfloor>(b + 360) / 360\<rfloor> = 1"
    by (intro floor_unique) simp_all
  then have m: "b + 360 - 360 * of_int (truncReal ((b + 360) / 360)) = b"
    using b by (simp add: truncReal_def)
  have "calculateBearing (Num 0) (Num 90) (Num 45) (Num 135) = Num b"
    unfolding calculateBearing_exact [OF coordinates_small(1,2,3,4)] a
    using m unfolding b_def by simp
  with b show ?thesis
    by blast
qed

lemma calculateCourseChange_ABC:
  "\<exists>c. calculateCourseChange (Num 0) (Num 0) (Num 0) (Num 90) (Num 45) (Num 135) = Num c
     \<and> 45 < c \<and> c < 60"
proof -
  obtain b where b: "calculateBearing (Num 0) (Num 90) (Num 45) (Num 135) = Num b" "30 < b" "b < 45"
    using calculateBearing_BC by blast
  have "calculateCourseChange (Num 0) (Num 0) (Num 0) (Num 90) (Num 45) (Num 135) = Num (90 - b)"
    using b(2,3) by (simp add: calculateCourseChange_def calculateBearing_AB b(1) js_sub_def js_gt_def)
  with b(2,3) show ?thesis
    by simp
qed
text \<open>
  The budget of a flight of more than 300 km: 11 waypoints at the medium base rate, 8 at the
  high one.
\<close>

lemma budget_long:
  assumes "300 < D"
  shows "getTargetWaypointCount (Num D) ''medium'' = Num 11"
    and "getTargetWaypointCount (Num D) ''high'' = Num 8"
proof -
  have "12 < D / 25" "7 < D / 40"
    using assms by simp_all
  then have "(8::real) \<le> of_int \<lceil>D / 25\<rceil>" "(5::real) \<le> of_int \<lceil>D / 40\<rceil>"
    using le_of_int_ceiling [of "D / 25"] le_of_int_ceiling [of "D / 40"] by linarith+
  then have m: "min 8 (of_int \<lceil>D / 25\<rceil>) = (8::real)" "min 5 (of_int \<lceil>D / 40\<rceil>) = (5::real)"
    by simp_all
  have h: "baseCount (Num D) ''high'' = Num (min 5 (of_int \<lceil>D / 40\<rceil>))"
    by (simp add: baseCount_def Math_min_Num)
  show "getTargetWaypointCount (Num D) ''medium'' = Num 11"
    unfolding getTargetWaypointCount_Num [OF baseCount_medium] m using assms by simp
  show "getTargetWaypointCount (Num D) ''high'' = Num 8"
    unfolding getTargetWaypointCount_Num [OF h] m using assms by simp
qed

text \<open>
  C10. For a level string that is none of low, medium and high, and a flight with fixes,
  \<open>generateWaypoints\<close> mixes two levels. The base count of the budget is the medium one,
  \<open>min(8, ceil(distance/25))\<close>, from the default of the switch, so the budget is that of the
  level medium. The turn threshold is 60, that of the level high and not the 45 of medium.
  The returned waypoints are the takeoff, the candidates that the loop finds with the
  threshold 60, cut to the medium budget of the flight distance, and the landing.
\<close>

theorem unknown_level_mixture:
  assumes "level \<notin> {''low'', ''medium'', ''high''}" and "fixes fd \<noteq> []"
  shows "baseCount d level = Math_min (Num 8) (Math_ceil (js_div d (Num 25)))
         \<and> baseCount d level = baseCount d ''medium''
         \<and> getTargetWaypointCount d level = getTargetWaypointCount d ''medium''
         \<and> turnThreshold level = Num 60
         \<and> turnThreshold level = turnThreshold ''high''
         \<and> turnThreshold level \<noteq> turnThreshold ''medium''
         \<and> fst (generateWaypoints g fd level) =
             foldl (addSelected (fixes fd)) [waypointOf ''TAKEOFF'' (hd (fixes fd))]
               (sortBy (\<lambda>a b. js_sub (Num (real (fix a))) (Num (real (fix b))))
                  (slice0
                     (sortBy (\<lambda>a b. js_sub (importance b) (importance a))
                        (concat (map (possibleAt (fixes fd) (Num 60))
                           (triples (sampleFixes (length (fixes fd)))))))
                     (getTargetWaypointCount (calculateTotalDistance (fixes fd)) ''medium'')))
             @ [waypointOf ''LANDING'' (last (fixes fd))]
         \<and> snd (generateWaypoints g fd level) =
             \<lparr> waypoints = fst (generateWaypoints g fd level),
               flightDistance = calculateTotalDistance (fixes fd),
               currentOptimizationLevel = level \<rparr>"
proof -
  note p = unknown_level_parameters [OF assms(1)]
  have r: "fst (generateWaypoints g fd level) =
      foldl (addSelected (fixes fd)) [waypointOf ''TAKEOFF'' (hd (fixes fd))]
        (sortBy (\<lambda>a b. js_sub (Num (real (fix a))) (Num (real (fix b))))
           (slice0
              (sortBy (\<lambda>a b. js_sub (importance b) (importance a))
                 (concat (map (possibleAt (fixes fd) (Num 60))
                    (triples (sampleFixes (length (fixes fd)))))))
              (getTargetWaypointCount (calculateTotalDistance (fixes fd)) ''medium'')))
      @ [waypointOf ''LANDING'' (last (fixes fd))]"
    using generateWaypoints_result [OF assms(2), of g level]
    unfolding p(4) p(3) [of "calculateTotalDistance (fixes fd)"] .
  have m: "\<not> js_le (getTargetWaypointCount (calculateTotalDistance (fixes fd)) level) (Num 0)"
    by (rule getTargetWaypointCount_not_le_0)
  have s: "snd (generateWaypoints g fd level) =
      \<lparr> waypoints = fst (generateWaypoints g fd level),
        flightDistance = calculateTotalDistance (fixes fd),
        currentOptimizationLevel = level \<rparr>"
    using assms(2) m by (simp add: generateWaypoints_def Let_def)
  have t: "turnThreshold level \<noteq> turnThreshold ''medium''"
    unfolding p(4) p(6) by simp
  have b: "baseCount d level = baseCount d ''medium''"
    unfolding p(1) [of d] p(2) [of d] ..
  have h: "turnThreshold level = turnThreshold ''high''"
    unfolding p(4) p(5) ..
  from p(1) [of d] b p(3) [of d] p(4) h t r s show ?thesis
    by (intro conjI)
qed
text \<open>
  A flight of 13 fixes at one altitude: eleven legs to and fro on the equator between the
  longitudes 0 and 90, then a last leg to latitude 45 and longitude 135. The first ten inner
  fixes are reversals, a course change of 180; at the eleventh the course changes by more
  than 45 and less than 60. The flight is longer than 300 km. The level extreme, with the
  threshold 60 and the medium budget 11, keeps the ten reversals. The level medium, with
  the threshold 45, keeps the eleventh turn too; the level high, with the budget 8, keeps
  eight reversals.
\<close>

theorem unknown_level_mixture_witness:
  "map name (fst (generateWaypoints
       \<lparr> waypoints = [], flightDistance = Num 0, currentOptimizationLevel = ''medium'' \<rparr>
       \<lparr> header = initialHeader,
         fixes = map (\<lambda>(la, lo). \<lparr> igcFix.time = ''12:00:00'', timestamp = Num 43200,
                    latitude = Num la, longitude = Num lo, validity = True,
                    pressureAltitude = Num 1000, gnssAltitude = Num 1000 \<rparr>)
                  [(0, 0), (0, 90), (0, 0), (0, 90), (0, 0), (0, 90), (0, 0), (0, 90), (0, 0),
                   (0, 90), (0, 0), (0, 90), (45, 135)],
         task = None, stats = calculateFlightStats [] \<rparr> ''extreme''))
     = [''TAKEOFF'', ''TURN1'', ''TURN2'', ''TURN3'', ''TURN4'', ''TURN5'', ''TURN6'', ''TURN7'',
        ''TURN8'', ''TURN9'', ''TURN10'', ''LANDING'']
   \<and> map name (fst (generateWaypoints
       \<lparr> waypoints = [], flightDistance = Num 0, currentOptimizationLevel = ''medium'' \<rparr>
       \<lparr> header = initialHeader,
         fixes = map (\<lambda>(la, lo). \<lparr> igcFix.time = ''12:00:00'', timestamp = Num 43200,
                    latitude = Num la, longitude = Num lo, validity = True,
                    pressureAltitude = Num 1000, gnssAltitude = Num 1000 \<rparr>)
                  [(0, 0), (0, 90), (0, 0), (0, 90), (0, 0), (0, 90), (0, 0), (0, 90), (0, 0),
                   (0, 90), (0, 0), (0, 90), (45, 135)],
         task = None, stats = calculateFlightStats [] \<rparr> ''medium''))
     = [''TAKEOFF'', ''TURN1'', ''TURN2'', ''TURN3'', ''TURN4'', ''TURN5'', ''TURN6'', ''TURN7'',
        ''TURN8'', ''TURN9'', ''TURN10'', ''TURN11'', ''LANDING'']
   \<and> map name (fst (generateWaypoints
       \<lparr> waypoints = [], flightDistance = Num 0, currentOptimizationLevel = ''medium'' \<rparr>
       \<lparr> header = initialHeader,
         fixes = map (\<lambda>(la, lo). \<lparr> igcFix.time = ''12:00:00'', timestamp = Num 43200,
                    latitude = Num la, longitude = Num lo, validity = True,
                    pressureAltitude = Num 1000, gnssAltitude = Num 1000 \<rparr>)
                  [(0, 0), (0, 90), (0, 0), (0, 90), (0, 0), (0, 90), (0, 0), (0, 90), (0, 0),
                   (0, 90), (0, 0), (0, 90), (45, 135)],
         task = None, stats = calculateFlightStats [] \<rparr> ''high''))
     = [''TAKEOFF'', ''TURN1'', ''TURN2'', ''TURN3'', ''TURN4'', ''TURN5'', ''TURN6'', ''TURN7'',
        ''TURN8'', ''LANDING'']
   \<and> turnThreshold ''extreme'' = Num 60
   \<and> baseCount (Num 120) ''extreme'' = Num 5
   \<and> getTargetWaypointCount (Num 120) ''extreme'' = Num 7"
  (is "map name (fst (generateWaypoints ?g ?fd ''extreme'')) = ?E
     \<and> map name (fst (generateWaypoints ?g ?fd ''medium'')) = ?M
     \<and> map name (fst (generateWaypoints ?g ?fd ''high'')) = ?H \<and> ?t \<and> ?b \<and> ?n")
proof -
  define A where "A = \<lparr> igcFix.time = ''12:00:00'', timestamp = Num 43200,
    latitude = Num 0, longitude = Num 0, validity = True,
    pressureAltitude = Num 1000, gnssAltitude = Num 1000 \<rparr>"
  define B where "B = \<lparr> igcFix.time = ''12:00:00'', timestamp = Num 43200,
    latitude = Num 0, longitude = Num 90, validity = True,
    pressureAltitude = Num 1000, gnssAltitude = Num 1000 \<rparr>"
  define C where "C = \<lparr> igcFix.time = ''12:00:00'', timestamp = Num 43200,
    latitude = Num 45, longitude = Num 135, validity = True,
    pressureAltitude = Num 1000, gnssAltitude = Num 1000 \<rparr>"
  define fs where "fs = [A, B, A, B, A, B, A, B, A, B, A, B, C]"
  have fs: "fixes ?fd = fs"
    by (simp add: fs_def A_def B_def C_def)
  have ne: "fixes ?fd \<noteq> []"
    unfolding fs by (simp add: fs_def)
  have sel [simp]: "latitude A = Num 0" "longitude A = Num 0" "pressureAltitude A = Num 1000"
    "latitude B = Num 0" "longitude B = Num 90" "pressureAltitude B = Num 1000"
    "latitude C = Num 45" "longitude C = Num 135" "pressureAltitude C = Num 1000"
    by (simp_all add: A_def B_def C_def)
  obtain c where c: "calculateCourseChange (Num 0) (Num 0) (Num 0) (Num 90) (Num 45) (Num 135) = Num c"
    "45 < c" "c < 60"
    using calculateCourseChange_ABC by blast
  obtain r where r: "calculateHaversineDistance (Num 0) (Num 90) (Num 45) (Num 135) = Num r" "0 \<le> r"
    using calculateHaversineDistance_Num [OF coordinates_small(1,2,3,4)] by blast
  define q :: real where "q = 6371 * (2 * (pi / 4))"
  have q: "6371 \<le> q"
    unfolding q_def using pi_ge_two by simp
  note leg = calculateHaversineDistance_AB [folded q_def]
  have far: "\<not> js_lt (Num q) (Num (1 / 10))"
    using q by simp
  have i180: "js_mul (Num 180) (Num 2) = Num 360"
    using js_mul_Num [of 180 2] by simp
  have "\<bar>c * 2\<bar> \<le> 1000"
    using c(2,3) by simp
  then have "\<bar>c * 2\<bar> \<le> 10 ^ 308"
    by simp
  then have ic: "js_mul (Num c) (Num 2) = Num (c * 2)"
    by (rule js_mul_Num)
  have len: "length fs = 13"
    by (simp add: fs_def)
  have "[0..<13] = [0, 1, 2, 3, 4, 5, 6, 7, 8, 9, 10, 11, 12]"
    by (simp add: upt_rec)
  then have "sampleFixes 13 = [0, 1, 2, 3, 4, 5, 6, 7, 8, 9, 10, 11, 12]"
    by (simp add: sampleFixes_def)
  then have tr: "triples (sampleFixes (length fs)) =
      [(0, 1, 2), (1, 2, 3), (2, 3, 4), (3, 4, 5), (4, 5, 6), (5, 6, 7), (6, 7, 8), (7, 8, 9),
       (8, 9, 10), (9, 10, 11), (10, 11, 12)]"
    unfolding len by (simp add: triples_def)
  define turn where "turn = (\<lambda>i x. \<lparr> fix = i, importance = Num x, type = ''turn'' \<rparr>)"
  define L where "L = [turn 1 360, turn 2 360, turn 3 360, turn 4 360, turn 5 360, turn 6 360,
    turn 7 360, turn 8 360, turn 9 360, turn 10 360]"
  define N where "N = [''TURN1'', ''TURN2'', ''TURN3'', ''TURN4'', ''TURN5'', ''TURN6'', ''TURN7'',
    ''TURN8'', ''TURN9'', ''TURN10'']"
  have cands: "concat (map (possibleAt fs (Num t)) (triples (sampleFixes (length fs)))) =
      L @ (if t < c then [turn 11 (c * 2)] else [])"
    if "t < 180" for t
    unfolding tr using that q
    by (simp add: possibleAt_def fs_def Let_def leg far r c(1) calculateCourseChange_ABA
        calculateCourseChange_BAB i180 ic js_gt_def js_sub_def turn_def L_def del: js_mul.simps)
  have total: "calculateTotalDistance fs = Num (11 * q + r)"
    by (simp add: calculateTotalDistance_def fs_def pairs_def leg r(1))
  have "300 < 11 * q + r"
    using q r(2) by simp
  note budget = budget_long [OF this, folded total]
  have sorted1: "sortBy (\<lambda>a b. js_sub (importance b) (importance a)) (L @ ts) = L @ ts"
    if "ts = [] \<or> ts = [turn 11 (c * 2)]" for ts
    using that c(2,3) by (auto simp: sortBy_def turn_def L_def js_gt_def js_sub_def)
  have sorted2: "sortBy (\<lambda>a b. js_sub (Num (real (fix a))) (Num (real (fix b)))) (take n (L @ ts))
      = take n (L @ ts)"
    if "ts = [] \<or> ts = [turn 11 (c * 2)]" "n = 8 \<or> n = 11" for ts n
    using that by (auto simp: sortBy_def turn_def L_def js_gt_def js_sub_def)
  have names: "map name (foldl (addSelected fs) [waypointOf ''TAKEOFF'' (hd fs)] (take n (L @ ts))
      @ [waypointOf ''LANDING'' (last fs)]) =
      ''TAKEOFF'' # take n (N @ map (\<lambda>x. ''TURN11'') ts) @ [''LANDING'']"
    if "ts = [] \<or> ts = [turn 11 (c * 2)]" "n = 8 \<or> n = 11" for ts n
    using that by (auto simp: addSelected_def waypointOf_def turn_def L_def N_def decimal_eval)
  have sl: "slice0 xs (Num 11) = take 11 xs" "slice0 xs (Num 8) = take 8 xs" for xs :: "candidate list"
    by (simp_all add: slice0_def truncReal_def)
  have t0: "[] = [] \<or> [] = [turn 11 (c * 2)]"
    and t1: "[turn 11 (c * 2)] = [] \<or> [turn 11 (c * 2)] = [turn 11 (c * 2)]"
    and n8: "(8::nat) = 8 \<or> (8::nat) = 11" and n11: "(11::nat) = 8 \<or> (11::nat) = 11"
    by simp_all
  have c60: "concat (map (possibleAt fs (Num 60)) (triples (sampleFixes (length fs)))) = L @ []"
    using cands [of 60] c(3) by simp
  have c45: "concat (map (possibleAt fs (Num 45)) (triples (sampleFixes (length fs))))
      = L @ [turn 11 (c * 2)]"
    using cands [of 45] c(2) by simp
  have 1: "''extreme'' \<notin> {''low'', ''medium'', ''high''}"
    by simp
  note u = unknown_level_mixture [OF 1 ne, of "Num 120" ?g]
  from u have "fst (generateWaypoints ?g ?fd ''extreme'') =
      foldl (addSelected fs) [waypointOf ''TAKEOFF'' (hd fs)]
        (sortBy (\<lambda>a b. js_sub (Num (real (fix a))) (Num (real (fix b))))
           (slice0
              (sortBy (\<lambda>a b. js_sub (importance b) (importance a))
                 (concat (map (possibleAt fs (Num 60)) (triples (sampleFixes (length fs))))))
              (getTargetWaypointCount (calculateTotalDistance fs) ''medium'')))
      @ [waypointOf ''LANDING'' (last fs)]"
    unfolding fs by blast
  then have "fst (generateWaypoints ?g ?fd ''extreme'') =
      foldl (addSelected fs) [waypointOf ''TAKEOFF'' (hd fs)] (take 11 (L @ []))
      @ [waypointOf ''LANDING'' (last fs)]"
    unfolding c60 budget sl sorted1 [OF t0] sorted2 [OF t0 n11] .
  then have "map name (fst (generateWaypoints ?g ?fd ''extreme''))
      = map name (foldl (addSelected fs) [waypointOf ''TAKEOFF'' (hd fs)] (take 11 (L @ []))
          @ [waypointOf ''LANDING'' (last fs)])"
    by (rule arg_cong)
  then have E: "map name (fst (generateWaypoints ?g ?fd ''extreme'')) = ?E"
    unfolding names [OF t0 n11] by (simp add: N_def)
  have "fst (generateWaypoints ?g ?fd ''medium'') =
      foldl (addSelected fs) [waypointOf ''TAKEOFF'' (hd fs)]
        (sortBy (\<lambda>a b. js_sub (Num (real (fix a))) (Num (real (fix b))))
           (slice0
              (sortBy (\<lambda>a b. js_sub (importance b) (importance a))
                 (concat (map (possibleAt fs (Num 45)) (triples (sampleFixes (length fs))))))
              (getTargetWaypointCount (calculateTotalDistance fs) ''medium'')))
      @ [waypointOf ''LANDING'' (last fs)]"
    using generateWaypoints_result [OF ne, of ?g "''medium''"]
    unfolding fs by (simp add: turnThreshold_def)
  then have "fst (generateWaypoints ?g ?fd ''medium'') =
      foldl (addSelected fs) [waypointOf ''TAKEOFF'' (hd fs)] (take 11 (L @ [turn 11 (c * 2)]))
      @ [waypointOf ''LANDING'' (last fs)]"
    unfolding c45 budget sl sorted1 [OF t1] sorted2 [OF t1 n11] .
  then have "map name (fst (generateWaypoints ?g ?fd ''medium''))
      = map name (foldl (addSelected fs) [waypointOf ''TAKEOFF'' (hd fs)] (take 11 (L @ [turn 11 (c * 2)]))
          @ [waypointOf ''LANDING'' (last fs)])"
    by (rule arg_cong)
  then have M: "map name (fst (generateWaypoints ?g ?fd ''medium'')) = ?M"
    unfolding names [OF t1 n11] by (simp add: N_def)
  have "fst (generateWaypoints ?g ?fd ''high'') =
      foldl (addSelected fs) [waypointOf ''TAKEOFF'' (hd fs)]
        (sortBy (\<lambda>a b. js_sub (Num (real (fix a))) (Num (real (fix b))))
           (slice0
              (sortBy (\<lambda>a b. js_sub (importance b) (importance a))
                 (concat (map (possibleAt fs (Num 60)) (triples (sampleFixes (length fs))))))
              (getTargetWaypointCount (calculateTotalDistance fs) ''high'')))
      @ [waypointOf ''LANDING'' (last fs)]"
    using generateWaypoints_result [OF ne, of ?g "''high''"]
    unfolding fs by (simp add: turnThreshold_def)
  then have "fst (generateWaypoints ?g ?fd ''high'') =
      foldl (addSelected fs) [waypointOf ''TAKEOFF'' (hd fs)] (take 8 (L @ []))
      @ [waypointOf ''LANDING'' (last fs)]"
    unfolding c60 budget sl sorted1 [OF t0] sorted2 [OF t0 n8] .
  then have "map name (fst (generateWaypoints ?g ?fd ''high''))
      = map name (foldl (addSelected fs) [waypointOf ''TAKEOFF'' (hd fs)] (take 8 (L @ []))
          @ [waypointOf ''LANDING'' (last fs)])"
    by (rule arg_cong)
  then have H: "map name (fst (generateWaypoints ?g ?fd ''high'')) = ?H"
    unfolding names [OF t0 n8] by (simp add: N_def)
  have 2: "Math_min (Num 8) (Math_ceil (js_div (Num 120) (Num 25))) = Num 5"
    by (simp add: Math_min_Num)
  from u have b: ?b and t: ?t
    unfolding 2 by blast+
  have "baseCount (Num 120) ''medium'' = Num 5"
    unfolding baseCount_medium by simp
  from getTargetWaypointCount_Num [OF this] have "getTargetWaypointCount (Num 120) ''medium'' = Num 7"
    by simp
  with u have n: ?n
    by simp
  from E M H t b n show ?thesis
    by (intro conjI)
qed

end
